theory Spec2Isabelle
  imports Complex_Main "HOL-Library.Multiset"
begin

section \<open>JavaScript values\<close>

text \<open>
  A JavaScript number is a double. The finite ones are modelled by the real they denote
  (so \<open>-0\<close> and \<open>+0\<close> are one value, as they are for \<open>===\<close>); the code under
  study never does arithmetic on them beyond \<open>Math.floor\<close>, \<open>Math.min\<close>,
  \<open>Math.max\<close> and a subtraction of integer timestamps, all exact.
\<close>

datatype jsnum = NaN | PosInf | NegInf | Fin real

text \<open>
  An object is the list of its own enumerable properties in enumeration order
  (\<open>Object.keys\<close>, \<open>Object.entries\<close>); a real object has no two entries with the
  same key.
\<close>

datatype jsval =
    JUndefined
  | JNull
  | JBool bool
  | JNum jsnum
  | JStr string
  | JArr "jsval list"
  | JObj "(string \<times> jsval) list"

text \<open>
  The built-in functions whose result the code only passes on are parameters of the model:
  \<open>String.prototype.trim\<close>, the conversion of a string to a number, the formatting of a
  number that is not a safe integer, \<open>JSON.parse\<close> on a string (\<open>None\<close> when it throws)
  and \<open>new Date(v).getTime()\<close> (\<open>None\<close> when it is \<open>NaN\<close>).
\<close>

record js_env =
  String_trim :: "string \<Rightarrow> string"
  StringToNumber :: "string \<Rightarrow> jsnum"
  Number_repr :: "real \<Rightarrow> string"
  JSON_parse_text :: "string \<Rightarrow> jsval option"
  Date_getTime :: "jsval \<Rightarrow> int option"

definition Number_isFinite :: "jsval \<Rightarrow> bool" where
  "Number_isFinite v = (case v of JNum (Fin r) \<Rightarrow> True | _ \<Rightarrow> False)"

definition Array_isArray :: "jsval \<Rightarrow> bool" where
  "Array_isArray v = (case v of JArr xs \<Rightarrow> True | _ \<Rightarrow> False)"

text \<open>\<open>typeof v === "object"\<close>: true of \<open>null\<close>, of arrays and of objects.\<close>

definition typeof_object :: "jsval \<Rightarrow> bool" where
  "typeof_object v = (case v of JNull \<Rightarrow> True | JArr xs \<Rightarrow> True | JObj kvs \<Rightarrow> True | _ \<Rightarrow> False)"

text \<open>\<open>!v\<close>: the falsy values.\<close>

definition falsy :: "jsval \<Rightarrow> bool" where
  "falsy v = (case v of
      JUndefined \<Rightarrow> True
    | JNull \<Rightarrow> True
    | JBool b \<Rightarrow> \<not> b
    | JNum n \<Rightarrow> (n = NaN \<or> n = Fin 0)
    | JStr s \<Rightarrow> (s = [])
    | _ \<Rightarrow> False)"

text \<open>
  \<open>a === b\<close>. Two numbers are equal when they are the same number other than \<open>NaN\<close>.
  Arrays and objects are compared by identity; the values compared by the code under study
  come from different places (a stored row and a request), so they are never the same
  array or object.
\<close>

fun strict_eq :: "jsval \<Rightarrow> jsval \<Rightarrow> bool" where
  "strict_eq JUndefined JUndefined = True"
| "strict_eq JNull JNull = True"
| "strict_eq (JBool a) (JBool b) = (a = b)"
| "strict_eq (JNum a) (JNum b) = (a = b \<and> a \<noteq> NaN)"
| "strict_eq (JStr a) (JStr b) = (a = b)"
| "strict_eq a b = False"

subsection \<open>Numbers and strings\<close>

definition digit_char :: "nat \<Rightarrow> char" where
  "digit_char d = ''0123456789abcdef'' ! (d mod 16)"

fun nat_digits :: "nat \<Rightarrow> string" where
  "nat_digits n = (if n < 10 then [digit_char n] else nat_digits (n div 10) @ [digit_char (n mod 10)])"

declare nat_digits.simps [simp del]

definition int_digits :: "int \<Rightarrow> string" where
  "int_digits i = (if i < 0 then CHR ''-'' # nat_digits (nat (- i)) else nat_digits (nat i))"

definition is_integer :: "real \<Rightarrow> bool" where
  "is_integer r = (r = of_int \<lfloor>r\<rfloor>)"

definition is_safe_integer :: "real \<Rightarrow> bool" where
  "is_safe_integer r = (is_integer r \<and> \<bar>r\<bar> \<le> 9007199254740991)"

text \<open>
  \<open>Number.prototype.toString\<close>: a safe integer prints as its decimal digits; the
  shortest round-trip formatting of the other finite doubles is left to the environment.
\<close>

definition Number_toString :: "js_env \<Rightarrow> jsnum \<Rightarrow> string" where
  "Number_toString e n = (case n of
      NaN \<Rightarrow> ''NaN''
    | PosInf \<Rightarrow> ''Infinity''
    | NegInf \<Rightarrow> ''-Infinity''
    | Fin r \<Rightarrow> if is_safe_integer r then int_digits \<lfloor>r\<rfloor> else Number_repr e r)"

definition dquote :: char where
  "dquote = CHR 0x22"

definition backslash :: char where
  "backslash = CHR 0x5C"

text \<open>\<open>QuoteJSONString\<close> of ECMAScript, on the characters of the model.\<close>

definition json_escape :: "char \<Rightarrow> string" where
  "json_escape c =
    (if c = CHR 0x08 then [backslash, CHR ''b'']
     else if c = CHR 0x09 then [backslash, CHR ''t'']
     else if c = CHR 0x0A then [backslash, CHR ''n'']
     else if c = CHR 0x0C then [backslash, CHR ''f'']
     else if c = CHR 0x0D then [backslash, CHR ''r'']
     else if c = dquote then [backslash, dquote]
     else if c = backslash then [backslash, backslash]
     else if (of_char c :: nat) < 32
       then [backslash, CHR ''u'', CHR ''0'', CHR ''0'',
             digit_char (of_char c div 16), digit_char (of_char c mod 16)]
     else [c])"

definition QuoteJSONString :: "string \<Rightarrow> string" where
  "QuoteJSONString s = dquote # concat (map json_escape s) @ [dquote]"

fun join :: "string \<Rightarrow> string list \<Rightarrow> string" where
  "join sep [] = []"
| "join sep [x] = x"
| "join sep (x # y # ys) = x @ sep @ join sep (y # ys)"

text \<open>
  \<open>JSON.stringify\<close>; \<open>None\<close> is the result \<open>undefined\<close>. A non-finite number
  serialises as \<open>null\<close>, an \<open>undefined\<close> array element as \<open>null\<close>, and an
  \<open>undefined\<close> property is left out.
\<close>

fun JSON_stringify :: "js_env \<Rightarrow> jsval \<Rightarrow> string option" where
  "JSON_stringify e JUndefined = None"
| "JSON_stringify e JNull = Some ''null''"
| "JSON_stringify e (JBool b) = Some (if b then ''true'' else ''false'')"
| "JSON_stringify e (JNum n) =
     Some (case n of Fin r \<Rightarrow> Number_toString e n | _ \<Rightarrow> ''null'')"
| "JSON_stringify e (JStr s) = Some (QuoteJSONString s)"
| "JSON_stringify e (JArr xs) =
     Some (''['' @ join '',''
        (map (\<lambda>x. case JSON_stringify e x of None \<Rightarrow> ''null'' | Some t \<Rightarrow> t) xs) @ '']'')"
| "JSON_stringify e (JObj kvs) =
     Some (''{'' @ join '',''
        (concat (map (\<lambda>kv. case JSON_stringify e (snd kv) of
                        None \<Rightarrow> []
                      | Some t \<Rightarrow> [QuoteJSONString (fst kv) @ '':'' @ t]) kvs)) @ ''}'')"

section \<open>Structural JSON diff\<close>

text \<open>
  A JavaScript \<open>Map\<close> from strings to strings, in insertion order: \<open>set\<close> on a key
  that is present replaces its value in place, on a new key appends the entry.
\<close>

type_synonym strmap = "(string \<times> string) list"

fun Map_set :: "string \<Rightarrow> 'a \<Rightarrow> (string \<times> 'a) list \<Rightarrow> (string \<times> 'a) list" where
  "Map_set k v [] = [(k, v)]"
| "Map_set k v (p # ps) = (if fst p = k then (k, v) # ps else p # Map_set k v ps)"

definition Map_has :: "strmap \<Rightarrow> string \<Rightarrow> bool" where
  "Map_has m k = (k \<in> fst ` set m)"

text \<open>
  \<open>m.get(k)\<close>. The code reads a key only after \<open>m.has(k)\<close>; for a key that is
  absent the model fixes the empty string.
\<close>

definition Map_get :: "strmap \<Rightarrow> string \<Rightarrow> string" where
  "Map_get m k = (case map_of m k of Some v \<Rightarrow> v | None \<Rightarrow> [])"

definition Map_keys :: "strmap \<Rightarrow> string list" where
  "Map_keys m = map fst m"

text \<open>
  \<open>flattenJsonValue(value, path, acc)\<close>. The two \<open>forEach\<close> loops are
  \<open>flattenItems\<close> (over the items of an array, with the running index) and
  \<open>flattenKeys\<close> (over the keys of an object). The last branch is reached by booleans,
  numbers and strings only, for which \<open>JSON.stringify\<close> returns a string.
\<close>

definition scalar_text :: "js_env \<Rightarrow> jsval \<Rightarrow> string" where
  "scalar_text e v = (case JSON_stringify e v of Some t \<Rightarrow> t | None \<Rightarrow> ''undefined'')"

function flattenJsonValue :: "js_env \<Rightarrow> jsval \<Rightarrow> string \<Rightarrow> strmap \<Rightarrow> strmap"
  and flattenItems :: "js_env \<Rightarrow> jsval list \<Rightarrow> nat \<Rightarrow> string \<Rightarrow> strmap \<Rightarrow> strmap"
  and flattenKeys :: "js_env \<Rightarrow> (string \<times> jsval) list \<Rightarrow> string \<Rightarrow> strmap \<Rightarrow> strmap"
where
  "flattenJsonValue e JUndefined path acc = Map_set path ''undefined'' acc"
| "flattenJsonValue e JNull path acc = Map_set path ''null'' acc"
| "flattenJsonValue e (JArr items) path acc =
     (if items = [] then Map_set path ''[]'' acc else flattenItems e items 0 path acc)"
| "flattenJsonValue e (JObj kvs) path acc =
     (if kvs = [] then Map_set path ''{}'' acc else flattenKeys e kvs path acc)"
| "flattenJsonValue e (JBool b) path acc = Map_set path (scalar_text e (JBool b)) acc"
| "flattenJsonValue e (JNum n) path acc = Map_set path (scalar_text e (JNum n)) acc"
| "flattenJsonValue e (JStr s) path acc = Map_set path (scalar_text e (JStr s)) acc"
| "flattenItems e [] index path acc = acc"
| "flattenItems e (item # items) index path acc =
     flattenItems e items (Suc index) path
       (flattenJsonValue e item (path @ ''['' @ nat_digits index @ '']'') acc)"
| "flattenKeys e [] path acc = acc"
| "flattenKeys e (kv # kvs) path acc =
     flattenKeys e kvs path
       (flattenJsonValue e (snd kv)
          (if path = ''$'' then ''$.'' @ fst kv else path @ ''.'' @ fst kv) acc)"
  by pat_completeness auto
termination
  by (relation "measure (\<lambda>x. case x of
         Inl (e, v, p, a) \<Rightarrow> size v
       | Inr (Inl (e, xs, i, p, a)) \<Rightarrow> size_list size xs
       | Inr (Inr (e, kvs, p, a)) \<Rightarrow> size_list (\<lambda>kv. Suc (size (snd kv))) kvs)")
     (auto simp: size_prod_simp)

text \<open>
  \<open>new Set([...a, ...b])\<close>: the elements in order of first occurrence.
\<close>

fun Set_add :: "string \<Rightarrow> string list \<Rightarrow> string list" where
  "Set_add k s = (if k \<in> set s then s else s @ [k])"

definition Set_of :: "string list \<Rightarrow> string list" where
  "Set_of ks = fold Set_add ks []"

record change =
  jsonPath :: string
  fromValue :: string
  toValue :: string

text \<open>The body of the loop over \<open>allPaths\<close>, with \<open>changes\<close> as the state.\<close>

definition diff_step :: "strmap \<Rightarrow> strmap \<Rightarrow> string \<Rightarrow> change list \<Rightarrow> change list" where
  "diff_step currentFlat nextFlat path changes =
    (let before = (if Map_has currentFlat path then Map_get currentFlat path else ''undefined'');
         after = (if Map_has nextFlat path then Map_get nextFlat path else ''undefined'')
     in if before = after then changes
        else changes @ [\<lparr>jsonPath = path, fromValue = before, toValue = after\<rparr>])"

definition diffRecommendationPayloads :: "js_env \<Rightarrow> jsval \<Rightarrow> jsval \<Rightarrow> change list" where
  "diffRecommendationPayloads e currentPayload nextPayload =
    (let currentFlat = flattenJsonValue e currentPayload ''$'' [];
         nextFlat = flattenJsonValue e nextPayload ''$'' [];
         allPaths = Set_of (Map_keys currentFlat @ Map_keys nextFlat)
     in fold (diff_step currentFlat nextFlat) allPaths [])"

section \<open>Conversions\<close>

text \<open>\<open>String(v)\<close> for the values of the model (plain arrays and plain objects).\<close>

fun ToString :: "js_env \<Rightarrow> jsval \<Rightarrow> string" where
  "ToString e JUndefined = ''undefined''"
| "ToString e JNull = ''null''"
| "ToString e (JBool b) = (if b then ''true'' else ''false'')"
| "ToString e (JNum n) = Number_toString e n"
| "ToString e (JStr s) = s"
| "ToString e (JArr xs) =
     join '','' (map (\<lambda>x. if x = JUndefined \<or> x = JNull then [] else ToString e x) xs)"
| "ToString e (JObj kvs) = ''[object Object]''"

text \<open>\<open>Number(v)\<close>.\<close>

definition ToNumber :: "js_env \<Rightarrow> jsval \<Rightarrow> jsnum" where
  "ToNumber e v = (case v of
      JUndefined \<Rightarrow> NaN
    | JNull \<Rightarrow> Fin 0
    | JBool b \<Rightarrow> Fin (if b then 1 else 0)
    | JNum n \<Rightarrow> n
    | JStr s \<Rightarrow> StringToNumber e s
    | _ \<Rightarrow> StringToNumber e (ToString e v))"

definition Number_isInteger :: "jsnum \<Rightarrow> bool" where
  "Number_isInteger n = (case n of Fin r \<Rightarrow> is_integer r | _ \<Rightarrow> False)"

text \<open>The integer a number that passed \<open>Number.isInteger\<close> denotes.\<close>

definition int_of_jsnum :: "jsnum \<Rightarrow> int" where
  "int_of_jsnum n = (case n of Fin r \<Rightarrow> \<lfloor>r\<rfloor> | _ \<Rightarrow> 0)"

text \<open>\<open>JSON.parse(v)\<close>: the argument is converted to a string first.\<close>

definition JSON_parse :: "js_env \<Rightarrow> jsval \<Rightarrow> jsval option" where
  "JSON_parse e v = JSON_parse_text e (ToString e v)"

text \<open>\<open>JSON.stringify(v)\<close> as a JavaScript value.\<close>

definition JSON_text :: "js_env \<Rightarrow> jsval \<Rightarrow> jsval" where
  "JSON_text e v = (case JSON_stringify e v of Some t \<Rightarrow> JStr t | None \<Rightarrow> JUndefined)"

text \<open>\<open>a ?? null\<close> and \<open>a || b\<close>.\<close>

definition or_null :: "jsval \<Rightarrow> jsval" where
  "or_null v = (if v = JUndefined \<or> v = JNull then JNull else v)"

definition js_or :: "jsval \<Rightarrow> jsval \<Rightarrow> jsval" where
  "js_or a b = (if falsy a then b else a)"

section \<open>Record store\<close>

text \<open>
  A row as the store returns it: column name to value; \<open>row[column]\<close> is
  \<open>undefined\<close> for a name that is not a column.
\<close>

type_synonym row = "string \<Rightarrow> jsval option"

definition get_prop :: "row \<Rightarrow> string \<Rightarrow> jsval" where
  "get_prop r k = (case r k of Some v \<Rightarrow> v | None \<Rightarrow> JUndefined)"

record change_row =
  report_id :: int
  json_path :: string
  from_value :: string
  to_value :: string
  changed_at :: string

record db =
  companies :: "int \<Rightarrow> row option"
  investor_reports :: "int \<Rightarrow> row option"
  investor_report_changes :: "change_row list"

text \<open>
  An \<open>Error\<close> with its message and its \<open>statusCode\<close> when the code sets one;
  \<open>StoreError\<close> is whatever the store library throws when it cannot run a statement.
\<close>

datatype js_error = Error string "nat option" | StoreError

text \<open>The statements that write.\<close>

datatype statement =
    UpdateCompany int "(string \<times> jsval) list"
  | UpdateInvestorReport int jsval
  | InsertInvestorReportChange int string string string

text \<open>
  The store binds numbers, strings and \<open>null\<close> (bigints and buffers are not values of
  the model) and throws on anything else; it stores \<open>NaN\<close> as \<open>NULL\<close>. Every other
  value it gives back as it was stored: the code never hands a string to a numeric column
  or a number to a text column, so no column affinity converts a value, and the strings of
  the model are well-formed text, which the store keeps.
\<close>

definition bindable :: "jsval \<Rightarrow> bool" where
  "bindable v = (case v of JNull \<Rightarrow> True | JNum n \<Rightarrow> True | JStr s \<Rightarrow> True | _ \<Rightarrow> False)"

definition sql_value :: "jsval \<Rightarrow> jsval" where
  "sql_value v = (if v = JNum NaN then JNull else v)"

text \<open>\<open>UPDATE companies SET c = @c, ..., updated_at = CURRENT_TIMESTAMP\<close> on one row.\<close>

fun set_columns :: "(string \<times> jsval) list \<Rightarrow> row \<Rightarrow> row" where
  "set_columns [] r = r"
| "set_columns (kv # kvs) r = set_columns kvs (r(fst kv \<mapsto> sql_value (snd kv)))"

text \<open>The schema declares \<open>companies.name\<close> as \<open>NOT NULL\<close>.\<close>

definition violates_not_null :: "(string \<times> jsval) list \<Rightarrow> bool" where
  "violates_not_null payload = (\<exists>kv \<in> set payload. fst kv = ''name'' \<and> sql_value (snd kv) = JNull)"

text \<open>
  Running the update of a company row: \<open>refuses\<close> says which statements the store fails
  for reasons of its own (a full disk, a lock). A statement that fails writes nothing.
\<close>

definition run_UpdateCompany ::
  "(statement \<Rightarrow> bool) \<Rightarrow> string \<Rightarrow> db \<Rightarrow> int \<Rightarrow> (string \<times> jsval) list \<Rightarrow> js_error + db" where
  "run_UpdateCompany refuses current_timestamp d cid payload =
    (if \<not> list_all (\<lambda>kv. bindable (snd kv)) payload then Inl StoreError
     else if violates_not_null payload then Inl StoreError
     else if refuses (UpdateCompany cid payload) then Inl StoreError
     else case companies d cid of
       None \<Rightarrow> Inr d
     | Some r \<Rightarrow> Inr (d\<lparr>companies := (companies d)
           (cid \<mapsto> (set_columns payload r)(''updated_at'' \<mapsto> JStr current_timestamp))\<rparr>))"

definition run_UpdateInvestorReport ::
  "(statement \<Rightarrow> bool) \<Rightarrow> db \<Rightarrow> int \<Rightarrow> jsval \<Rightarrow> js_error + db" where
  "run_UpdateInvestorReport refuses d rid recommendation =
    (if \<not> bindable recommendation \<or> sql_value recommendation = JNull then Inl StoreError
     else if refuses (UpdateInvestorReport rid recommendation) then Inl StoreError
     else case investor_reports d rid of
       None \<Rightarrow> Inr d
     | Some r \<Rightarrow> Inr (d\<lparr>investor_reports := (investor_reports d)
           (rid \<mapsto> r(''recommendation'' \<mapsto> sql_value recommendation))\<rparr>))"

definition run_InsertInvestorReportChange ::
  "(statement \<Rightarrow> bool) \<Rightarrow> string \<Rightarrow> db \<Rightarrow> int \<Rightarrow> change \<Rightarrow> js_error + db" where
  "run_InsertInvestorReportChange refuses current_timestamp d rid c =
    (if refuses (InsertInvestorReportChange rid (jsonPath c) (fromValue c) (toValue c))
     then Inl StoreError
     else Inr (d\<lparr>investor_report_changes := investor_report_changes d @
           [\<lparr>report_id = rid, json_path = jsonPath c, from_value = fromValue c,
             to_value = toValue c, changed_at = current_timestamp\<rparr>]\<rparr>))"

text \<open>
  \<open>db.transaction(f)(items)\<close>: when \<open>f\<close> throws, the store is rolled back to what it
  was when the transaction began and the error is thrown on.
\<close>

definition transaction :: "(db \<Rightarrow> js_error + db) \<Rightarrow> db \<Rightarrow> js_error \<times> db + db" where
  "transaction f d = (case f d of Inl err \<Rightarrow> Inl (err, d) | Inr d' \<Rightarrow> Inr d')"

section \<open>Manual company updates\<close>

definition MANUAL_FIELD_NAME_MAP :: "(string \<times> string) list" where
  "MANUAL_FIELD_NAME_MAP =
    [(''funding_need_type_guess'', ''funding_need_type''),
     (''funding_need_min_eur_guess'', ''funding_need_min_eur''),
     (''funding_need_max_eur_guess'', ''funding_need_max_eur''),
     (''funding_need_summary_guess'', ''funding_need_summary'')]"

definition MANUAL_EDITABLE_COLUMNS :: "string list" where
  "MANUAL_EDITABLE_COLUMNS =
    [''name'', ''business_id'', ''website_url'', ''country'', ''city'', ''industry_code'',
     ''industry_text'', ''employee_count'', ''employee_range'', ''revenue_eur'',
     ''revenue_range'', ''stage'', ''funding_need_type'', ''funding_need_min_eur'',
     ''funding_need_max_eur'', ''funding_need_summary'', ''description'', ''tags'']"

definition MANUAL_NUMERIC_COLUMNS :: "string list" where
  "MANUAL_NUMERIC_COLUMNS =
    [''employee_count'', ''revenue_eur'', ''funding_need_min_eur'', ''funding_need_max_eur'']"

definition resolveManualColumn :: "string \<Rightarrow> string option" where
  "resolveManualColumn field =
    (case map_of MANUAL_FIELD_NAME_MAP field of
       Some column \<Rightarrow> Some column
     | None \<Rightarrow> if field \<in> set MANUAL_EDITABLE_COLUMNS then Some field else None)"

text \<open>
  The object \<open>coerceManualValue\<close> returns: \<open>value\<close> and \<open>error\<close> are
  \<open>undefined\<close> (\<open>JUndefined\<close>, \<open>None\<close>) where the code leaves them out.
\<close>

record coerced =
  shouldPersist :: bool
  cvalue :: jsval
  cerror :: "string option"

definition persist :: "jsval \<Rightarrow> coerced" where
  "persist v = \<lparr>shouldPersist = True, cvalue = v, cerror = None\<rparr>"

definition coerceManualValue :: "js_env \<Rightarrow> string \<Rightarrow> jsval \<Rightarrow> coerced" where
  "coerceManualValue e column rawValue =
    (case rawValue of
       JUndefined \<Rightarrow> \<lparr>shouldPersist = False, cvalue = JUndefined, cerror = None\<rparr>
     | JNull \<Rightarrow> persist JNull
     | JStr s \<Rightarrow>
         (let trimmed = String_trim e s in
          if trimmed = [] then persist JNull
          else if column \<in> set MANUAL_NUMERIC_COLUMNS then
            (let numeric = StringToNumber e trimmed in
             if \<not> Number_isFinite (JNum numeric)
             then \<lparr>shouldPersist = False, cvalue = JUndefined,
                   cerror = Some (''Invalid numeric value for '' @ column)\<rparr>
             else persist (JNum numeric))
          else persist (JStr trimmed))
     | JNum n \<Rightarrow>
         (if column \<in> set MANUAL_NUMERIC_COLUMNS then persist (JNum n)
          else persist (JStr (Number_toString e n)))
     | _ \<Rightarrow> persist rawValue)"

definition parseManualLog :: "js_env \<Rightarrow> jsval \<Rightarrow> jsval list" where
  "parseManualLog e rawLog =
    (if falsy rawLog then []
     else case JSON_parse e rawLog of
       None \<Rightarrow> []
     | Some parsed \<Rightarrow> (case parsed of JArr xs \<Rightarrow> xs | _ \<Rightarrow> []))"

text \<open>The three accumulators of the loop over \<open>Object.entries(updates)\<close>.\<close>

record loop_state =
  changes :: "jsval list"
  updatePayload :: "(string \<times> jsval) list"
  validationErrors :: "string list"

definition isSame :: "jsval \<Rightarrow> jsval \<Rightarrow> bool" where
  "isSame normalizedPrevious v =
    (if (normalizedPrevious = JNull \<or> normalizedPrevious = JUndefined) \<and> (v = JNull \<or> v = JUndefined)
     then True else strict_eq normalizedPrevious v)"

definition change_entry :: "string \<Rightarrow> jsval \<Rightarrow> jsval \<Rightarrow> string \<Rightarrow> jsval" where
  "change_entry columnName normalizedPrevious v timestamp =
    JObj [(''column'', JStr columnName), (''from'', or_null normalizedPrevious),
          (''to'', or_null v), (''changedAt'', JStr timestamp)]"

text \<open>One iteration of the loop, for the entry \<open>[field, rawValue]\<close>.\<close>

definition manual_step :: "js_env \<Rightarrow> row \<Rightarrow> string \<Rightarrow> string \<times> jsval \<Rightarrow> loop_state \<Rightarrow> loop_state" where
  "manual_step e existingRow timestamp entry st =
    (case resolveManualColumn (fst entry) of
       None \<Rightarrow> st
     | Some columnName \<Rightarrow>
        (let c = coerceManualValue e columnName (snd entry) in
         case cerror c of
           Some err \<Rightarrow> st\<lparr>validationErrors := validationErrors st @ [err]\<rparr>
         | None \<Rightarrow>
            if \<not> shouldPersist c then st
            else
              (let previousValue = get_prop existingRow columnName;
                   normalizedPrevious = (if previousValue = JUndefined then JNull else previousValue)
               in if isSame normalizedPrevious (cvalue c) then st
                  else st\<lparr>updatePayload := Map_set columnName (cvalue c) (updatePayload st),
                          changes := changes st @
                            [change_entry columnName normalizedPrevious (cvalue c) timestamp]\<rparr>)))"

record company_result =
  updated :: bool
  result_changes :: "jsval list option"
  manualChangeLog :: "jsval list"
  message :: string

text \<open>
  \<open>applyManualCompanyUpdates({companyId, updates})\<close> on the store \<open>d\<close>, with the two
  clock readings it takes (\<open>new Date().toISOString()\<close> and the store's
  \<open>CURRENT_TIMESTAMP\<close>). It returns what the call returns or throws, and the store
  after it.
\<close>

definition applyManualCompanyUpdates ::
  "js_env \<Rightarrow> (statement \<Rightarrow> bool) \<Rightarrow> string \<Rightarrow> string \<Rightarrow> db \<Rightarrow> jsval \<Rightarrow> jsval
     \<Rightarrow> (js_error + company_result) \<times> db" where
  "applyManualCompanyUpdates e refuses timestamp current_timestamp d companyId updates =
    (if \<not> Number_isInteger (ToNumber e companyId)
     then (Inl (Error ''Valid companyId is required'' None), d)
     else case updates of
       JObj entries \<Rightarrow>
        (let numericId = int_of_jsnum (ToNumber e companyId) in
         case companies d numericId of
           None \<Rightarrow> (Inl (Error ''Company not found'' (Some 404)), d)
         | Some existingRow \<Rightarrow>
            (let st = fold (manual_step e existingRow timestamp) entries
                        \<lparr>changes = [], updatePayload = [], validationErrors = []\<rparr>
             in if length (validationErrors st) > 0
                then (Inl (Error (join ''; '' (validationErrors st)) (Some 400)), d)
                else if length (updatePayload st) = 0
                then (Inr \<lparr>updated = False, result_changes = None,
                           manualChangeLog = parseManualLog e (get_prop existingRow ''manual_change_log''),
                           message = ''No changes detected''\<rparr>, d)
                else
                  (let baseLog = parseManualLog e (get_prop existingRow ''manual_change_log'');
                       updatedLog = baseLog @ changes st;
                       payload = Map_set ''manual_change_log'' (JSON_text e (JArr updatedLog))
                                   (updatePayload st)
                   in case run_UpdateCompany refuses current_timestamp d numericId payload of
                        Inl err \<Rightarrow> (Inl err, d)
                      | Inr d' \<Rightarrow>
                          (Inr \<lparr>updated = True, result_changes = Some (changes st),
                                manualChangeLog = updatedLog,
                                message = nat_digits (length (changes st)) @ '' field(s) updated''\<rparr>,
                           d'))))
     | _ \<Rightarrow> (Inl (Error ''updates payload must be an object'' None), d))"

section \<open>Manual investor report updates\<close>

text \<open>
  The answers of the store to the three read statements. The two
  \<open>ORDER BY created_at DESC LIMIT ?\<close> statements are given by the rows they return for a
  bound limit; \<open>ORDER BY changed_at DESC\<close>, whose order among equal timestamps the store
  does not fix, by the reordering it applies to the selected rows.
\<close>

record queries =
  selectRecentCasesStmt :: "int \<Rightarrow> row list"
  selectRecentInvestorReportsStmt :: "int \<Rightarrow> row list"
  order_by_changed_at_desc :: "change_row list \<Rightarrow> change_row list"

text \<open>
  \<open>selectInvestorReportChanges(reportId)\<close>; both callers bind a number.
\<close>

definition selectInvestorReportChanges :: "queries \<Rightarrow> db \<Rightarrow> jsval \<Rightarrow> jsval list" where
  "selectInvestorReportChanges q d reportId =
    map (\<lambda>r. JObj [(''jsonPath'', JStr (json_path r)), (''fromValue'', JStr (from_value r)),
                    (''toValue'', JStr (to_value r)), (''changedAt'', JStr (changed_at r))])
      (order_by_changed_at_desc q
         (filter (\<lambda>r. JNum (Fin (of_int (report_id r))) = reportId) (investor_report_changes d)))"

record report_result =
  report_updated :: bool
  report_changes :: "change list option"
  report_message :: "string option"
  report_manualChangeLog :: "jsval list"
  recommendation :: jsval

text \<open>The body of the transaction \<open>insertMany\<close>: the inserts in order, stopping at the first that throws.\<close>

fun insertMany :: "(statement \<Rightarrow> bool) \<Rightarrow> string \<Rightarrow> int \<Rightarrow> change list \<Rightarrow> db \<Rightarrow> js_error + db" where
  "insertMany refuses current_timestamp rid [] d = Inr d"
| "insertMany refuses current_timestamp rid (c # items) d =
     (case run_InsertInvestorReportChange refuses current_timestamp d rid c of
        Inl err \<Rightarrow> Inl err
      | Inr d' \<Rightarrow> insertMany refuses current_timestamp rid items d')"

definition applyManualInvestorReportUpdates ::
  "js_env \<Rightarrow> queries \<Rightarrow> (statement \<Rightarrow> bool) \<Rightarrow> string \<Rightarrow> db \<Rightarrow> jsval \<Rightarrow> jsval
     \<Rightarrow> (js_error + report_result) \<times> db" where
  "applyManualInvestorReportUpdates e q refuses current_timestamp d reportId recommendation' =
    (if \<not> Number_isInteger (ToNumber e reportId)
     then (Inl (Error ''Valid reportId is required'' None), d)
     else if falsy recommendation' \<or> \<not> typeof_object recommendation'
     then (Inl (Error ''recommendation payload must be an object'' None), d)
     else
      (let numericId = int_of_jsnum (ToNumber e reportId) in
       case investor_reports d numericId of
         None \<Rightarrow> (Inl (Error ''Investor report not found'' (Some 404)), d)
       | Some existing \<Rightarrow>
          (let parsedExisting =
                 (case JSON_parse e (get_prop existing ''recommendation'') of
                    Some v \<Rightarrow> v | None \<Rightarrow> JObj []);
               changes = diffRecommendationPayloads e parsedExisting recommendation'
           in if length changes = 0
              then (Inr \<lparr>report_updated = False, report_changes = None,
                         report_message = Some ''No changes detected'',
                         report_manualChangeLog = selectInvestorReportChanges q d (JNum (ToNumber e reportId)),
                         recommendation = parsedExisting\<rparr>, d)
              else
                (let updateRecommendation = JSON_text e recommendation' in
                 case run_UpdateInvestorReport refuses d numericId updateRecommendation of
                   Inl err \<Rightarrow> (Inl err, d)
                 | Inr d1 \<Rightarrow>
                    (case transaction (insertMany refuses current_timestamp numericId changes) d1 of
                       Inl (err, d2) \<Rightarrow> (Inl err, d2)
                     | Inr d2 \<Rightarrow>
                        (Inr \<lparr>report_updated = True, report_changes = Some changes,
                              report_message = None,
                              report_manualChangeLog =
                                selectInvestorReportChanges q d2 (JNum (ToNumber e reportId)),
                              recommendation = recommendation'\<rparr>, d2))))))"

section \<open>History feed\<close>

text \<open>
  \<open>shapeMetricsFromRow(row)\<close> for a row the store returned (the caller in this model
  always has one, so the \<open>null\<close> for a missing row does not arise).
\<close>

definition shapeMetricsFromRow :: "row \<Rightarrow> jsval" where
  "shapeMetricsFromRow r =
    JObj [(''name'', get_prop r ''company_name''),
          (''business_id'', get_prop r ''business_id''),
          (''website_url'', get_prop r ''website_url''),
          (''country'', get_prop r ''country''),
          (''city'', get_prop r ''city''),
          (''industry_code'', get_prop r ''industry_code''),
          (''industry_text'', get_prop r ''industry_text''),
          (''employee_count'', get_prop r ''employee_count''),
          (''employee_range'', get_prop r ''employee_range''),
          (''revenue_eur'', get_prop r ''revenue_eur''),
          (''revenue_range'', get_prop r ''revenue_range''),
          (''stage'', get_prop r ''stage''),
          (''funding_need_type_guess'', get_prop r ''funding_need_type''),
          (''funding_need_min_eur_guess'', get_prop r ''funding_need_min_eur''),
          (''funding_need_max_eur_guess'', get_prop r ''funding_need_max_eur''),
          (''funding_need_summary_guess'', get_prop r ''funding_need_summary''),
          (''description'', get_prop r ''description''),
          (''summary'', js_or (js_or (get_prop r ''company_summary_text'') (get_prop r ''description'')) JNull)]"

text \<open>Reading a property of an object; \<open>undefined\<close> when it has none of that name.\<close>

definition property :: "jsval \<Rightarrow> string \<Rightarrow> jsval" where
  "property v k = (case v of
      JObj kvs \<Rightarrow> (case map_of kvs k of Some x \<Rightarrow> x | None \<Rightarrow> JUndefined)
    | _ \<Rightarrow> JUndefined)"

definition mapCase :: "js_env \<Rightarrow> row \<Rightarrow> jsval" where
  "mapCase e r =
    JObj [(''entryType'', JStr ''lookup''),
          (''caseId'', get_prop r ''case_id''),
          (''companyId'', get_prop r ''company_id''),
          (''companyName'', get_prop r ''company_name''),
          (''createdAt'', get_prop r ''created_at''),
          (''summary'', get_prop r ''company_summary_text''),
          (''metrics'', shapeMetricsFromRow r),
          (''manualChangeLog'', JArr (parseManualLog e (get_prop r ''manual_change_log'')))]"








section \<open>Notions used to state the properties\<close>

text \<open>
  The canonical text of a path on one side of a diff: the text the flattening recorded,
  or \<open>undefined\<close> for a path that side does not have.
\<close>

definition rendered :: "strmap \<Rightarrow> string \<Rightarrow> string" where
  "rendered m p = (if Map_has m p then Map_get m p else ''undefined'')"

definition change_at :: "strmap \<Rightarrow> strmap \<Rightarrow> string \<Rightarrow> change" where
  "change_at a b p = \<lparr>jsonPath = p, fromValue = rendered a p, toValue = rendered b p\<rparr>"

text \<open>
  An entry of the update map is invalid when its key resolves to a numeric column and its
  value is a string that is not blank after trimming and does not convert to a finite
  number; \<open>invalid_numeric\<close> gives the column then.
\<close>

definition invalid_numeric :: "js_env \<Rightarrow> string \<times> jsval \<Rightarrow> string option" where
  "invalid_numeric e entry =
    (case resolveManualColumn (fst entry) of
       None \<Rightarrow> None
     | Some column \<Rightarrow>
        (case snd entry of
           JStr s \<Rightarrow>
             if column \<in> set MANUAL_NUMERIC_COLUMNS \<and> String_trim e s \<noteq> []
                \<and> \<not> Number_isFinite (JNum (StringToNumber e (String_trim e s)))
             then Some column else None
         | _ \<Rightarrow> None))"

definition invalid_message :: "string \<Rightarrow> string" where
  "invalid_message column = ''Invalid numeric value for '' @ column"

text \<open>The column and value an entry asks to store, when it asks for one.\<close>

definition candidate :: "js_env \<Rightarrow> string \<times> jsval \<Rightarrow> (string \<times> jsval) option" where
  "candidate e entry =
    (case resolveManualColumn (fst entry) of
       None \<Rightarrow> None
     | Some column \<Rightarrow>
        (let c = coerceManualValue e column (snd entry)
         in if cerror c = None \<and> shouldPersist c then Some (column, cvalue c) else None))"

text \<open>The columns the keys of an update map resolve to, in the order of the entries.\<close>

definition resolved_columns :: "(string \<times> jsval) list \<Rightarrow> string list" where
  "resolved_columns entries = List.map_filter (\<lambda>entry. resolveManualColumn (fst entry)) entries"

text \<open>The manual change log of a company as the code reads it from the store.\<close>

definition stored_log :: "js_env \<Rightarrow> db \<Rightarrow> int \<Rightarrow> jsval list" where
  "stored_log e d cid =
    (case companies d cid of
       None \<Rightarrow> []
     | Some r \<Rightarrow> parseManualLog e (get_prop r ''manual_change_log''))"

text \<open>
  What \<open>JSON.parse(JSON.stringify(v))\<close> gives for a value of the model, by ECMAScript:
  a non-finite number and an undefined array item come back as \<open>null\<close>, an undefined
  property is dropped, everything else comes back as it was.
\<close>

fun json_norm :: "jsval \<Rightarrow> jsval" where
  "json_norm (JNum n) = (case n of Fin r \<Rightarrow> JNum n | _ \<Rightarrow> JNull)"
| "json_norm (JArr xs) = JArr (map (\<lambda>x. if x = JUndefined then JNull else json_norm x) xs)"
| "json_norm (JObj kvs) =
     JObj (map (\<lambda>kv. (fst kv, json_norm (snd kv))) (filter (\<lambda>kv. snd kv \<noteq> JUndefined) kvs))"
| "json_norm v = v"

text \<open>
  \<open>reads_back e v\<close>: the parser of the environment reads the serialisation of \<open>v\<close>
  as the built-in does. \<open>json_plain v\<close>: serialising and parsing gives \<open>v\<close> itself
  back, so \<open>v\<close> holds no non-finite number, undefined item or undefined property.
\<close>

definition reads_back :: "js_env \<Rightarrow> jsval \<Rightarrow> bool" where
  "reads_back e v =
    (case JSON_stringify e v of None \<Rightarrow> False | Some t \<Rightarrow> JSON_parse_text e t = Some (json_norm v))"

definition json_plain :: "jsval \<Rightarrow> bool" where
  "json_plain v = (json_norm v = v)"

text \<open>The stored value of a column as the loop compares it: \<open>null\<close> when the row has none.\<close>

definition normalized :: "row \<Rightarrow> string \<Rightarrow> jsval" where
  "normalized r column = (if get_prop r column = JUndefined then JNull else get_prop r column)"

text \<open>The column and value an entry makes the loop write, given the stored row.\<close>

definition writes :: "js_env \<Rightarrow> row \<Rightarrow> string \<times> jsval \<Rightarrow> (string \<times> jsval) option" where
  "writes e r entry =
    (case candidate e entry of
       None \<Rightarrow> None
     | Some cv \<Rightarrow> if isSame (normalized r (fst cv)) (snd cv) then None else Some cv)"

section \<open>A concrete store and environment\<close>

text \<open>
  An environment that agrees with the built-ins on the strings that occur below:
  trimming removes spaces, \<open>12\<close> converts to the number twelve and the words used as
  invalid input to \<open>NaN\<close>, two \<open>created_at\<close> texts are dates, and \<open>JSON.parse\<close>
  reads back the serialisations of the values in \<open>example_values\<close>.
\<close>

definition trim_spaces :: "string \<Rightarrow> string" where
  "trim_spaces s = rev (dropWhile (\<lambda>c. c = CHR '' '') (rev (dropWhile (\<lambda>c. c = CHR '' '') s)))"

definition example_env0 :: js_env where
  "example_env0 =
    \<lparr>String_trim = trim_spaces,
     StringToNumber = (\<lambda>s. if s = ''12'' then Fin 12 else NaN),
     Number_repr = (\<lambda>r. ''0.5''),
     JSON_parse_text = (\<lambda>s. None),
     Date_getTime = (\<lambda>v. if v = JStr ''2024-01-01 10:00:00'' then Some 1704103200000
                        else if v = JStr ''2024-01-02 10:00:00'' then Some 1704189600000
                        else None)\<rparr>"

definition example_recommendation :: jsval where
  "example_recommendation =
    JObj [(''search_summary'', JStr ''a''), (''recommended_investors'', JArr [])]"

definition example_log :: jsval where
  "example_log = JArr [change_entry ''employee_count'' JNull (JNum (Fin 12)) ''t1'']"

definition alias_log :: jsval where
  "alias_log =
    JArr [change_entry ''funding_need_type'' JNull (JStr ''grant'') ''t1'',
          change_entry ''funding_need_type'' JNull (JStr ''loan'') ''t1'']"

definition example_values :: "jsval list" where
  "example_values = [example_recommendation, example_log, alias_log, JArr []]"

fun parse_table :: "jsval list \<Rightarrow> string \<Rightarrow> jsval option" where
  "parse_table [] s = None"
| "parse_table (v # vs) s =
     (if JSON_stringify example_env0 v = Some s then Some v else parse_table vs s)"

definition example_env :: js_env where
  "example_env = example_env0\<lparr>JSON_parse_text := parse_table example_values\<rparr>"

definition example_row :: row where
  "example_row =
    [''id'' \<mapsto> JNum (Fin 1), ''name'' \<mapsto> JStr ''Acme'', ''employee_count'' \<mapsto> JNull,
     ''stage'' \<mapsto> JStr ''seed'', ''funding_need_type'' \<mapsto> JNull,
     ''manual_change_log'' \<mapsto> JNull]"

definition example_report :: row where
  "example_report =
    [''id'' \<mapsto> JNum (Fin 1), ''company_id'' \<mapsto> JNum (Fin 1), ''company_name'' \<mapsto> JStr ''Acme'',
     ''recommendation'' \<mapsto> JSON_text example_env0 example_recommendation]"

definition example_db :: db where
  "example_db =
    \<lparr>companies = [1 \<mapsto> example_row],
     investor_reports = [1 \<mapsto> example_report],
     investor_report_changes = []\<rparr>"

definition never :: "statement \<Rightarrow> bool" where
  "never s = False"

text \<open>The update of the scenario: a head count for a company that has none, and its stage again.\<close>

definition example_updates :: jsval where
  "example_updates = JObj [(''employee_count'', JStr '' 12''), (''stage'', JStr ''seed'')]"

text \<open>An update whose two keys resolve to the same column.\<close>

definition alias_updates :: jsval where
  "alias_updates =
    JObj [(''funding_need_type'', JStr ''grant''), (''funding_need_type_guess'', JStr ''loan'')]"

text \<open>An update with a head count that is not a number, next to a valid change of stage.\<close>

definition invalid_updates :: jsval where
  "invalid_updates = JObj [(''employee_count'', JStr ''many''), (''stage'', JStr ''growth'')]"

definition first_call :: "jsval \<Rightarrow> (js_error + company_result) \<times> db" where
  "first_call updates =
    applyManualCompanyUpdates example_env never ''t1'' ''c1'' example_db (JNum (Fin 1)) updates"

definition second_call :: "jsval \<Rightarrow> (js_error + company_result) \<times> db" where
  "second_call updates =
    applyManualCompanyUpdates example_env never ''t2'' ''c2'' (snd (first_call updates))
      (JNum (Fin 1)) updates"

text \<open>The value a company's row holds in a column.\<close>

definition stored_value :: "db \<Rightarrow> int \<Rightarrow> string \<Rightarrow> jsval" where
  "stored_value d cid column =
    (case companies d cid of None \<Rightarrow> JUndefined | Some r \<Rightarrow> get_prop r column)"

text \<open>The stored recommendation text of a report.\<close>

definition stored_recommendation :: "db \<Rightarrow> int \<Rightarrow> jsval" where
  "stored_recommendation d rid =
    (case investor_reports d rid of None \<Rightarrow> JUndefined | Some r \<Rightarrow> get_prop r ''recommendation'')"

text \<open>A store that fails every insertion of a change row, and nothing else.\<close>

definition refuse_inserts :: "statement \<Rightarrow> bool" where
  "refuse_inserts s = (case s of InsertInvestorReportChange rid p f t \<Rightarrow> True | _ \<Rightarrow> False)"

definition new_recommendation :: jsval where
  "new_recommendation =
    JObj [(''search_summary'', JStr ''b''), (''recommended_investors'', JArr [])]"

definition example_case_old :: row where
  "example_case_old =
    [''case_id'' \<mapsto> JNum (Fin 1), ''company_id'' \<mapsto> JNum (Fin 1), ''company_name'' \<mapsto> JStr ''Acme'',
     ''created_at'' \<mapsto> JStr ''2024-01-01 10:00:00'', ''manual_change_log'' \<mapsto> JStr ''not json'']"

definition example_report_new :: row where
  "example_report_new =
    [''report_id'' \<mapsto> JNum (Fin 1), ''company_id'' \<mapsto> JNum (Fin 1), ''company_name'' \<mapsto> JStr ''Acme'',
     ''created_at'' \<mapsto> JStr ''2024-01-02 10:00:00'',
     ''recommendation'' \<mapsto> JSON_text example_env0 example_recommendation]"

definition example_queries :: queries where
  "example_queries =
    \<lparr>selectRecentCasesStmt = (\<lambda>n. take (nat n) [example_case_old, example_case_old]),
     selectRecentInvestorReportsStmt = (\<lambda>n. take (nat n) [example_report_new]),
     order_by_changed_at_desc = (\<lambda>rows. rows)\<rparr>"



text \<open>
  The flattening as the specification words it: the leaves of a value with the path
  suffix of each below the root marker and its canonical text. An undefined value, a null,
  an empty array and an empty object are leaves with the texts \<open>undefined\<close>,
  \<open>null\<close>, \<open>[]\<close> and \<open>{}\<close>; a boolean, a number and a string are leaves with
  their JSON serialisation; a non-empty array contributes the leaves of each item under
  the suffix \<open>[i]\<close>, a non-empty object those of each value under the suffix
  \<open>.key\<close>. \<open>spec_flat\<close> puts the root marker in front, \<open>canonical\<close> is the text
  of a path (the last one recorded when two leaves share a path), and \<open>undefined\<close> for
  a path the value does not have.
\<close>

definition with_prefix :: "string \<Rightarrow> string \<times> string \<Rightarrow> string \<times> string" where
  "with_prefix p leaf = (p @ fst leaf, snd leaf)"

fun spec_leaves :: "js_env \<Rightarrow> jsval \<Rightarrow> (string \<times> string) list" where
  "spec_leaves e JUndefined = [([], ''undefined'')]"
| "spec_leaves e JNull = [([], ''null'')]"
| "spec_leaves e (JBool b) = [([], if b then ''true'' else ''false'')]"
| "spec_leaves e (JNum n) = [([], case n of Fin r \<Rightarrow> Number_toString e n | _ \<Rightarrow> ''null'')]"
| "spec_leaves e (JStr s) = [([], QuoteJSONString s)]"
| "spec_leaves e (JArr xs) =
     (if xs = [] then [([], ''[]'')]
      else concat (map2 (\<lambda>i leaves. map (with_prefix (''['' @ nat_digits i @ '']'')) leaves)
                     [0..<length xs] (map (spec_leaves e) xs)))"
| "spec_leaves e (JObj kvs) =
     (if kvs = [] then [([], ''{}'')]
      else concat (map (\<lambda>kv. map (with_prefix (''.'' @ fst kv)) (spec_leaves e (snd kv))) kvs))"

definition spec_flat :: "js_env \<Rightarrow> jsval \<Rightarrow> (string \<times> string) list" where
  "spec_flat e v = map (with_prefix ''$'') (spec_leaves e v)"

definition canonical :: "js_env \<Rightarrow> jsval \<Rightarrow> string \<Rightarrow> string" where
  "canonical e v path =
    (case map_of (rev (spec_flat e v)) path of Some t \<Rightarrow> t | None \<Rightarrow> ''undefined'')"

definition record_leaf :: "string \<times> string \<Rightarrow> strmap \<Rightarrow> strmap" where
  "record_leaf leaf acc = Map_set (fst leaf) (snd leaf) acc"

text \<open>Two payloads that differ inside a nested array and object.\<close>

definition nested_before :: jsval where
  "nested_before =
    JObj [(''list'', JArr [JNum (Fin 1), JObj [(''inner'', JNull), (''kept'', JStr ''x'')]]),
          (''gone'', JBool True)]"

definition nested_after :: jsval where
  "nested_after =
    JObj [(''list'', JArr [JNum (Fin 1), JObj [(''inner'', JArr []), (''kept'', JStr ''x'')]]),
          (''new'', JObj [])]"

text \<open>
  A later update of the stage of a company whose log already has an entry, with the parser
  that also reads the log grown by it; a company whose stored log is the text
  \<open>[1e999]\<close>, with a parser that reads that text and the log written over it; and a
  company whose stored log is not JSON.
\<close>

definition later_updates :: jsval where
  "later_updates = JObj [(''stage'', JStr ''growth'')]"

definition grown_log :: jsval where
  "grown_log =
    JArr [change_entry ''employee_count'' JNull (JNum (Fin 12)) ''t1'',
          change_entry ''stage'' (JStr ''seed'') (JStr ''growth'') ''t2'']"

definition later_env :: js_env where
  "later_env = example_env0\<lparr>JSON_parse_text := parse_table (example_values @ [grown_log])\<rparr>"

definition logged_db :: db where
  "logged_db =
    \<lparr>companies = [1 \<mapsto> example_row(''employee_count'' \<mapsto> JNum (Fin 12),
                                     ''manual_change_log'' \<mapsto> JSON_text example_env0 example_log)],
     investor_reports = Map.empty,
     investor_report_changes = []\<rparr>"

definition later_call :: "(js_error + company_result) \<times> db" where
  "later_call =
    applyManualCompanyUpdates later_env never ''t2'' ''c2'' logged_db (JNum (Fin 1)) later_updates"

definition overflow_env :: js_env where
  "overflow_env =
    example_env0\<lparr>JSON_parse_text :=
      (\<lambda>s. if s = ''[1e999]'' then Some (JArr [JNum PosInf])
           else parse_table
                  [JArr [JNull, change_entry ''employee_count'' JNull (JNum (Fin 12)) ''t1'']] s)\<rparr>"

definition overflow_db :: db where
  "overflow_db =
    \<lparr>companies = [1 \<mapsto> example_row(''manual_change_log'' \<mapsto> JStr ''[1e999]'')],
     investor_reports = Map.empty,
     investor_report_changes = []\<rparr>"

definition overflow_call :: "(js_error + company_result) \<times> db" where
  "overflow_call =
    applyManualCompanyUpdates overflow_env never ''t1'' ''c1'' overflow_db (JNum (Fin 1)) example_updates"

definition corrupt_row :: row where
  "corrupt_row = example_row(''manual_change_log'' \<mapsto> JStr ''not json'')"

definition corrupt_db :: db where
  "corrupt_db =
    \<lparr>companies = [1 \<mapsto> corrupt_row],
     investor_reports = Map.empty,
     investor_report_changes = []\<rparr>"

section \<open>Properties of the structural diff\<close>

lemma Map_set_keys: "fst ` set (Map_set k v m) = insert k (fst ` set m)"
  by (induction m) auto

lemma Map_set_distinct: "distinct (map fst m) \<Longrightarrow> distinct (map fst (Map_set k v m))"
  by (induction m) (auto simp add: Map_set_keys)

lemma map_of_Map_set: "map_of (Map_set k v m) = (map_of m)(k \<mapsto> v)"
  by (induction m) (auto simp add: fun_eq_iff)

lemma diff_step_same: "diff_step m m p cs = cs"
  by (simp add: diff_step_def)

lemma fold_diff_step_same: "fold (diff_step m m) ps cs = cs"
  by (induction ps arbitrary: cs) (simp_all add: diff_step_same)

lemma fold_diff_step:
  "fold (diff_step a b) ps cs =
     cs @ map (change_at a b) (filter (\<lambda>p. rendered a p \<noteq> rendered b p) ps)"
  by (induction ps arbitrary: cs) (simp_all add: diff_step_def rendered_def change_at_def Let_def)

lemma fold_Set_add_set: "set (fold Set_add ks s) = set s \<union> set ks"
  by (induction ks arbitrary: s) auto

lemma fold_Set_add_distinct: "distinct s \<Longrightarrow> distinct (fold Set_add ks s)"
  by (induction ks arbitrary: s) auto

lemma set_Set_of: "set (Set_of ks) = set ks"
  by (simp add: Set_of_def fold_Set_add_set)

lemma distinct_Set_of: "distinct (Set_of ks)"
  by (simp add: Set_of_def fold_Set_add_distinct)

lemma jsonPath_change_at: "jsonPath \<circ> change_at a b = id"
  by (rule ext) (simp add: change_at_def)

lemma diff_eq:
  "diffRecommendationPayloads e c n =
    (let a = flattenJsonValue e c ''$'' []; b = flattenJsonValue e n ''$'' []
     in map (change_at a b)
          (filter (\<lambda>p. rendered a p \<noteq> rendered b p) (Set_of (Map_keys a @ Map_keys b))))"
  by (simp add: diffRecommendationPayloads_def Let_def fold_diff_step)

text \<open>
  Claim C4. The diff of any value against itself is the empty list, whatever the value:
  scalars, \<open>null\<close>, \<open>undefined\<close>, arrays and objects, nested and empty ones included.
\<close>

theorem diff_self_empty: "diffRecommendationPayloads e X X = []"
  by (simp add: diffRecommendationPayloads_def Let_def fold_diff_step_same)

text \<open>
  Claim C5. The diff of \<open>{a: 1}\<close> against \<open>{a: "1"}\<close> is exactly one change, at the path
  \<open>$.a\<close>, from the text \<open>1\<close> to the text \<open>"1"\<close> (with its quotes): the number and the
  string have different canonical texts.
\<close>

theorem diff_number_vs_string:
  "diffRecommendationPayloads e (JObj [(''a'', JNum (Fin 1))]) (JObj [(''a'', JStr ''1'')]) =
     [\<lparr>jsonPath = ''$.a'', fromValue = ''1'', toValue = [CHR 0x22, CHR ''1'', CHR 0x22]\<rparr>]"
  by (simp add: diffRecommendationPayloads_def Set_of_def Map_keys_def diff_step_def Map_has_def
      Map_get_def scalar_text_def Number_toString_def is_safe_integer_def is_integer_def
      int_digits_def nat_digits.simps digit_char_def QuoteJSONString_def json_escape_def
      dquote_def backslash_def)

lemma flatten_leaves:
  "flattenJsonValue e JUndefined p acc = Map_set p ''undefined'' acc"
  "flattenJsonValue e JNull p acc = Map_set p ''null'' acc"
  "flattenJsonValue e (JArr []) p acc = Map_set p ''[]'' acc"
  "flattenJsonValue e (JObj []) p acc = Map_set p ''{}'' acc"
  by simp_all

lemma flatten_scalars:
  "\<exists>t. JSON_stringify e (JBool b) = Some t
        \<and> flattenJsonValue e (JBool b) p acc = Map_set p t acc"
  "\<exists>t. JSON_stringify e (JNum n) = Some t
        \<and> flattenJsonValue e (JNum n) p acc = Map_set p t acc"
  "\<exists>t. JSON_stringify e (JStr s) = Some t
        \<and> flattenJsonValue e (JStr s) p acc = Map_set p t acc"
  by (simp_all add: scalar_text_def)

lemma diff_one_row_per_path:
  "distinct (map jsonPath (diffRecommendationPayloads e before after))"
  by (simp add: diff_eq Let_def jsonPath_change_at distinct_Set_of distinct_map_filter)

lemma diff_rows_rendered:
  "set (diffRecommendationPayloads e before after)
     \<subseteq> range (change_at (flattenJsonValue e before ''$'' []) (flattenJsonValue e after ''$'' []))"
  by (auto simp add: diff_eq Let_def)

lemma diff_paths:
  "set (map jsonPath (diffRecommendationPayloads e before after)) =
     {p \<in> set (Map_keys (flattenJsonValue e before ''$'' []))
            \<union> set (Map_keys (flattenJsonValue e after ''$'' [])).
        rendered (flattenJsonValue e before ''$'' []) p
          \<noteq> rendered (flattenJsonValue e after ''$'' []) p}"
  by (auto simp add: diff_eq Let_def jsonPath_change_at set_Set_of)

lemma with_prefix_comp: "with_prefix p (with_prefix q leaf) = with_prefix (p @ q) leaf"
  by (simp add: with_prefix_def)

lemma with_prefix_empty: "with_prefix p ([], t) = (p, t)"
  by (simp add: with_prefix_def)

lemma fold_concat: "fold f (concat xss) acc = fold (\<lambda>xs. fold f xs) xss acc"
  by (induction xss arbitrary: acc) simp_all

lemma flatten_spec_all:
  "flattenJsonValue e v p acc = fold record_leaf (map (with_prefix p) (spec_leaves e v)) acc"
  "flattenItems e xs k p acc =
     fold record_leaf
       (concat (map2 (\<lambda>i leaves. map (with_prefix (p @ ''['' @ nat_digits i @ '']'')) leaves)
                  [k..<k + length xs] (map (spec_leaves e) xs))) acc"
  "flattenKeys e kvs p acc =
     fold record_leaf
       (concat (map (\<lambda>kv. map (with_prefix (p @ ''.'' @ fst kv)) (spec_leaves e (snd kv))) kvs)) acc"
proof (induction e v p acc and e xs k p acc and e kvs p acc
       rule: flattenJsonValue_flattenItems_flattenKeys.induct)
  case (1 e path acc)
  then show ?case by (simp add: record_leaf_def with_prefix_def)
next
  case (2 e path acc)
  then show ?case by (simp add: record_leaf_def with_prefix_def)
next
  case (3 e items path acc)
  show ?case
  proof (cases "items = []")
    case True
    then show ?thesis by (simp add: record_leaf_def with_prefix_def)
  next
    case False
    have "map (with_prefix path)
            (concat (map2 (\<lambda>i leaves. map (with_prefix (''['' @ nat_digits i @ '']'')) leaves)
                       [0..<length items] (map (spec_leaves e) items)))
          = concat (map2 (\<lambda>i leaves. map (with_prefix (path @ ''['' @ nat_digits i @ '']'')) leaves)
                       [0..<length items] (map (spec_leaves e) items))"
      by (simp add: map_concat with_prefix_comp comp_def case_prod_unfold)
    with False 3 show ?thesis by simp
  qed
next
  case (4 e kvs path acc)
  show ?case
  proof (cases "kvs = []")
    case True
    then show ?thesis by (simp add: record_leaf_def with_prefix_def)
  next
    case False
    have "map (with_prefix path)
            (concat (map (\<lambda>kv. map (with_prefix (''.'' @ fst kv)) (spec_leaves e (snd kv))) kvs))
          = concat (map (\<lambda>kv. map (with_prefix (path @ ''.'' @ fst kv)) (spec_leaves e (snd kv))) kvs)"
      by (simp add: map_concat with_prefix_comp comp_def)
    with False 4 show ?thesis by simp
  qed
next
  case (5 e b path acc)
  then show ?case by (simp add: record_leaf_def with_prefix_def scalar_text_def)
next
  case (6 e n path acc)
  then show ?case by (simp add: record_leaf_def with_prefix_def scalar_text_def)
next
  case (7 e s path acc)
  then show ?case by (simp add: record_leaf_def with_prefix_def scalar_text_def)
next
  case (8 e index path acc)
  then show ?case by simp
next
  case (9 e item items index path acc)
  then show ?case
    by (simp add: upt_conv_Cons fold_concat del: upt_Suc)
next
  case (10 e path acc)
  then show ?case by simp
next
  case (11 e kv kvs path acc)
  then show ?case by (simp add: fold_concat)
qed


lemma map_of_fold_record_leaf:
  "map_of (fold record_leaf leaves acc) k =
     (case map_of (rev leaves) k of Some t \<Rightarrow> Some t | None \<Rightarrow> map_of acc k)"
  by (induction leaves arbitrary: acc)
     (auto simp add: record_leaf_def map_of_Map_set map_of_append split: option.splits)

lemma keys_fold_record_leaf:
  "fst ` set (fold record_leaf leaves acc) = fst ` set acc \<union> fst ` set leaves"
  by (induction leaves arbitrary: acc) (auto simp add: record_leaf_def Map_set_keys)

lemma flatten_root: "flattenJsonValue e v ''$'' [] = fold record_leaf (spec_flat e v) []"
  by (simp add: flatten_spec_all(1) spec_flat_def)

lemma keys_flatten: "set (Map_keys (flattenJsonValue e v ''$'' [])) = fst ` set (spec_flat e v)"
  by (simp add: flatten_root Map_keys_def keys_fold_record_leaf)

lemma rendered_flatten: "rendered (flattenJsonValue e v ''$'' []) path = canonical e v path"
proof (cases "map_of (rev (spec_flat e v)) path")
  case None
  then have "path \<notin> fst ` set (spec_flat e v)"
    by (simp add: map_of_eq_None_iff)
  with None show ?thesis
    by (simp add: rendered_def Map_has_def canonical_def flatten_root keys_fold_record_leaf)
next
  case (Some t)
  then have "path \<in> fst ` set (spec_flat e v)"
    by (metis map_of_eq_None_iff option.distinct(1) set_rev)
  with Some show ?thesis
    by (simp add: rendered_def Map_has_def Map_get_def canonical_def flatten_root
        keys_fold_record_leaf map_of_fold_record_leaf)
qed

lemma diff_paths_spec:
  "set (map jsonPath (diffRecommendationPayloads e before after)) =
     {path \<in> fst ` set (spec_flat e before) \<union> fst ` set (spec_flat e after).
        canonical e before path \<noteq> canonical e after path}"
  unfolding diff_paths keys_flatten rendered_flatten by simp

lemma diff_rows_spec:
  "set (diffRecommendationPayloads e before after)
     \<subseteq> range (\<lambda>path. \<lparr>jsonPath = path, fromValue = canonical e before path,
                          toValue = canonical e after path\<rparr>)"
  using diff_rows_rendered [of e before after]
  by (auto simp add: change_at_def rendered_flatten)

text \<open>
  Claim C6. Flattening a value records, in order, every leaf of the value at its path:
  the leaves are those of \<open>spec_leaves\<close>, reached through any nesting of arrays and
  objects, with the texts \<open>undefined\<close>, \<open>null\<close>, \<open>[]\<close>, \<open>{}\<close> and the JSON
  serialisation of a boolean, a number or a string. The diff has exactly one row for each
  path of either side whose canonical texts differ, where a path that a side lacks has
  the text \<open>undefined\<close> on that side, and each row carries the two canonical texts of
  its path.
\<close>

theorem flatten_diff_canonical:
  "flattenJsonValue e v p acc = fold record_leaf (map (with_prefix p) (spec_leaves e v)) acc
   \<and> flattenJsonValue e JUndefined p acc = Map_set p ''undefined'' acc
   \<and> flattenJsonValue e JNull p acc = Map_set p ''null'' acc
   \<and> flattenJsonValue e (JArr []) p acc = Map_set p ''[]'' acc
   \<and> flattenJsonValue e (JObj []) p acc = Map_set p ''{}'' acc
   \<and> (\<exists>t. JSON_stringify e (JBool b) = Some t \<and> flattenJsonValue e (JBool b) p acc = Map_set p t acc)
   \<and> (\<exists>t. JSON_stringify e (JNum n) = Some t \<and> flattenJsonValue e (JNum n) p acc = Map_set p t acc)
   \<and> (\<exists>t. JSON_stringify e (JStr s) = Some t \<and> flattenJsonValue e (JStr s) p acc = Map_set p t acc)
   \<and> set (map jsonPath (diffRecommendationPayloads e before after)) =
        {path \<in> fst ` set (spec_flat e before) \<union> fst ` set (spec_flat e after).
           canonical e before path \<noteq> canonical e after path}
   \<and> distinct (map jsonPath (diffRecommendationPayloads e before after))
   \<and> set (diffRecommendationPayloads e before after)
        \<subseteq> range (\<lambda>path. \<lparr>jsonPath = path, fromValue = canonical e before path,
                             toValue = canonical e after path\<rparr>)"
  by (intro conjI flatten_spec_all(1) flatten_leaves flatten_scalars diff_paths_spec
      diff_one_row_per_path diff_rows_spec)

theorem flatten_diff_witness:
  "flattenJsonValue example_env nested_before ''$'' [] =
     [(''$.list[0]'', ''1''), (''$.list[1].inner'', ''null''),
      (''$.list[1].kept'', [CHR 0x22, CHR ''x'', CHR 0x22]), (''$.gone'', ''true'')]
   \<and> map jsonPath (diffRecommendationPayloads example_env nested_before nested_after) =
       [''$.list[1].inner'', ''$.gone'', ''$.new'']
   \<and> canonical example_env nested_before ''$.list[1].inner'' = ''null''
   \<and> canonical example_env nested_after ''$.list[1].inner'' = ''[]''
   \<and> canonical example_env nested_after ''$.gone'' = ''undefined''"
proof -
  have leaves: "fold record_leaf (map (with_prefix ''$'') (spec_leaves example_env nested_before)) [] =
     [(''$.list[0]'', ''1''), (''$.list[1].inner'', ''null''),
      (''$.list[1].kept'', [CHR 0x22, CHR ''x'', CHR 0x22]), (''$.gone'', ''true'')]"
    by code_simp
  have rows: "map jsonPath (diffRecommendationPayloads example_env nested_before nested_after) =
       [''$.list[1].inner'', ''$.gone'', ''$.new'']"
    by code_simp
  have texts: "canonical example_env nested_before ''$.list[1].inner'' = ''null''"
    "canonical example_env nested_after ''$.list[1].inner'' = ''[]''"
    "canonical example_env nested_after ''$.gone'' = ''undefined''"
    by code_simp+
  from flatten_diff_canonical [of example_env nested_before "''$''" "[]"]
  have "flattenJsonValue example_env nested_before ''$'' [] =
          fold record_leaf (map (with_prefix ''$'') (spec_leaves example_env nested_before)) []"
    by (rule conjunct1)
  with leaves rows texts show ?thesis by simp
qed

section \<open>Properties of the manual company update\<close>

lemma resolve_editable:
  "resolveManualColumn f = Some c \<Longrightarrow> c \<in> set MANUAL_EDITABLE_COLUMNS"
  by (auto simp add: resolveManualColumn_def MANUAL_FIELD_NAME_MAP_def MANUAL_EDITABLE_COLUMNS_def
      split: option.splits if_splits)

lemma editable_not_log:
  "c \<in> set MANUAL_EDITABLE_COLUMNS \<Longrightarrow> c \<noteq> ''manual_change_log'' \<and> c \<noteq> ''updated_at''"
  by (auto simp add: MANUAL_EDITABLE_COLUMNS_def)

lemma cerror_coerce:
  "cerror (coerceManualValue e column raw) =
    (case raw of
       JStr s \<Rightarrow>
         if column \<in> set MANUAL_NUMERIC_COLUMNS \<and> String_trim e s \<noteq> []
            \<and> \<not> Number_isFinite (JNum (StringToNumber e (String_trim e s)))
         then Some (invalid_message column) else None
     | _ \<Rightarrow> None)"
  by (simp add: coerceManualValue_def persist_def invalid_message_def Let_def split: jsval.splits)

lemma step_error:
  "validationErrors (manual_step e r ts entry st) =
     validationErrors st @ (case invalid_numeric e entry of None \<Rightarrow> [] | Some c \<Rightarrow> [invalid_message c])"
  by (simp add: manual_step_def invalid_numeric_def cerror_coerce Let_def split: option.splits jsval.splits)

lemma fold_errors:
  "validationErrors (fold (manual_step e r ts) entries st) =
     validationErrors st @ map invalid_message (List.map_filter (invalid_numeric e) entries)"
  by (induction entries arbitrary: st)
     (simp_all add: step_error List.map_filter_simps split: option.splits)


lemma map_filter_nonempty:
  "x \<in> set xs \<Longrightarrow> f x = Some y \<Longrightarrow> y \<in> set (List.map_filter f xs)"
  by (induction xs) (auto simp add: List.map_filter_simps split: option.splits)

text \<open>
  Claim C2. When the company exists and some entry of the update map gives a numeric column
  a string that is not blank and does not convert to a finite number, the call throws the
  error with status 400 whose message joins the messages of all such entries, in order,
  and the store is left as it was, whatever the other entries ask for.
\<close>

theorem invalid_numeric_fails_whole_request:
  assumes "Number_isInteger (ToNumber e companyId)"
    and "companies d (int_of_jsnum (ToNumber e companyId)) = Some existingRow"
    and "entry \<in> set entries"
    and "invalid_numeric e entry = Some column"
  shows "applyManualCompanyUpdates e refuses timestamp current_timestamp d companyId (JObj entries) =
           (Inl (Error (join ''; '' (map invalid_message (List.map_filter (invalid_numeric e) entries)))
                   (Some 400)), d)
         \<and> column \<in> set (List.map_filter (invalid_numeric e) entries)"
proof -
  have mem: "column \<in> set (List.map_filter (invalid_numeric e) entries)"
    using assms(3,4) by (rule map_filter_nonempty)
  then have "List.map_filter (invalid_numeric e) entries \<noteq> []"
    by auto
  then have "applyManualCompanyUpdates e refuses timestamp current_timestamp d companyId (JObj entries) =
           (Inl (Error (join ''; '' (map invalid_message (List.map_filter (invalid_numeric e) entries)))
                   (Some 400)), d)"
    using assms(1,2) by (simp add: applyManualCompanyUpdates_def Let_def fold_errors)
  with mem show ?thesis by simp
qed

subsection \<open>The update payload the loop builds\<close>

lemma set_columns_lookup:
  "distinct (map fst payload) \<Longrightarrow>
   set_columns payload r k = (case map_of payload k of Some v \<Rightarrow> Some (sql_value v) | None \<Rightarrow> r k)"
proof (induction payload arbitrary: r)
  case Nil
  then show ?case by simp
next
  case (Cons kv payload)
  then have "map_of payload (fst kv) = None"
    by (simp add: map_of_eq_None_iff)
  with Cons show ?case
    by (cases kv) (auto split: option.splits)
qed

lemma step_cases:
  "manual_step e r ts entry st =
    (case writes e r entry of
       Some cv \<Rightarrow>
         st\<lparr>updatePayload := Map_set (fst cv) (snd cv) (updatePayload st),
            changes := changes st @ [change_entry (fst cv) (normalized r (fst cv)) (snd cv) ts]\<rparr>
     | None \<Rightarrow>
        (case invalid_numeric e entry of
           None \<Rightarrow> st
         | Some c \<Rightarrow> st\<lparr>validationErrors := validationErrors st @ [invalid_message c]\<rparr>))"
  by (auto simp add: manual_step_def writes_def candidate_def normalized_def invalid_numeric_def
      cerror_coerce Let_def split: option.splits jsval.splits)

lemma step_payload:
  "updatePayload (manual_step e r ts entry st) =
    (case writes e r entry of
       Some cv \<Rightarrow> Map_set (fst cv) (snd cv) (updatePayload st)
     | None \<Rightarrow> updatePayload st)"
  by (simp add: step_cases split: option.splits)

lemma fold_payload_distinct:
  "distinct (map fst (updatePayload st)) \<Longrightarrow>
   distinct (map fst (updatePayload (fold (manual_step e r ts) entries st)))"
  by (induction entries arbitrary: st)
     (simp_all add: step_payload Map_set_distinct split: option.splits)

lemma fold_payload_origin:
  "map_of (updatePayload (fold (manual_step e r ts) entries st)) c = Some v \<Longrightarrow>
   map_of (updatePayload st) c = Some v \<or> (\<exists>entry \<in> set entries. writes e r entry = Some (c, v))"
proof (induction entries arbitrary: st)
  case Nil
  then show ?case by simp
next
  case (Cons entry entries)
  from Cons.prems have
    "map_of (updatePayload (fold (manual_step e r ts) entries (manual_step e r ts entry st))) c = Some v"
    by simp
  from Cons.IH [OF this] show ?case
    by (auto simp add: step_payload map_of_Map_set split: option.splits if_splits)
qed

lemma fold_payload_keeps:
  "c \<in> fst ` set (updatePayload st) \<Longrightarrow>
   c \<in> fst ` set (updatePayload (fold (manual_step e r ts) entries st))"
  by (induction entries arbitrary: st)
     (simp_all add: step_payload Map_set_keys split: option.splits)

lemma fold_payload_written:
  "entry \<in> set entries \<Longrightarrow> writes e r entry = Some (c, v) \<Longrightarrow>
   c \<in> fst ` set (updatePayload (fold (manual_step e r ts) entries st))"
proof (induction entries arbitrary: st)
  case Nil
  then show ?case by simp
next
  case (Cons x entries)
  show ?case
  proof (cases "entry = x")
    case True
    with Cons.prems have "c \<in> fst ` set (updatePayload (manual_step e r ts x st))"
      by (simp add: step_payload Map_set_keys)
    then show ?thesis
      by (simp add: fold_payload_keeps)
  next
    case False
    with Cons show ?thesis by simp
  qed
qed

lemma fold_step_id:
  "\<forall>entry \<in> set entries. writes e r entry = None \<and> invalid_numeric e entry = None \<Longrightarrow>
   fold (manual_step e r ts) entries st = st"
  by (induction entries arbitrary: st) (simp_all add: step_cases)

lemma map_filter_empty:
  "List.map_filter f xs = [] \<Longrightarrow> x \<in> set xs \<Longrightarrow> f x = None"
  by (induction xs) (auto simp add: List.map_filter_simps split: option.splits)

lemma map_filter_distinct_same:
  "distinct (List.map_filter f xs) \<Longrightarrow> x \<in> set xs \<Longrightarrow> y \<in> set xs \<Longrightarrow>
   f x = Some c \<Longrightarrow> f y = Some c \<Longrightarrow> x = y"
proof (induction xs)
  case Nil
  then show ?case by simp
next
  case (Cons a xs)
  then show ?case
    by (auto simp add: List.map_filter_simps split: option.splits dest: map_filter_nonempty)
qed

lemma candidate_column:
  "candidate e entry = Some (c, v) \<Longrightarrow> resolveManualColumn (fst entry) = Some c"
  by (auto simp add: candidate_def Let_def split: option.splits if_splits)

lemma candidate_not_NaN:
  "candidate e entry = Some (c, v) \<Longrightarrow> snd entry \<noteq> JNum NaN \<Longrightarrow> v \<noteq> JNum NaN"
  by (auto simp add: candidate_def coerceManualValue_def persist_def Number_isFinite_def Let_def
      split: option.splits if_splits jsval.splits jsnum.splits)

lemma writes_candidate:
  "writes e r entry = Some (c, v) \<Longrightarrow> candidate e entry = Some (c, v)"
  by (auto simp add: writes_def split: option.splits if_splits)

lemma isSame_stored:
  "bindable v \<Longrightarrow> v \<noteq> JNum NaN \<Longrightarrow>
   isSame (if sql_value v = JUndefined then JNull else sql_value v) v"
  by (cases v) (auto simp add: bindable_def sql_value_def isSame_def)

lemma run_UpdateCompany_ok:
  "run_UpdateCompany refuses cts d cid payload = Inr d' \<Longrightarrow> companies d cid = Some r \<Longrightarrow>
   list_all (\<lambda>kv. bindable (snd kv)) payload
   \<and> d' = d\<lparr>companies := (companies d)(cid \<mapsto> (set_columns payload r)(''updated_at'' \<mapsto> JStr cts))\<rparr>"
  by (auto simp add: run_UpdateCompany_def split: if_splits)


lemma apply_success_cases:
  assumes "applyManualCompanyUpdates e refuses ts cts d companyId (JObj entries) = (Inr res, d')"
  shows "\<exists>r. Number_isInteger (ToNumber e companyId)
     \<and> companies d (int_of_jsnum (ToNumber e companyId)) = Some r
     \<and> validationErrors (fold (manual_step e r ts) entries \<lparr>changes = [], updatePayload = [], validationErrors = []\<rparr>) = []
     \<and> ((updatePayload (fold (manual_step e r ts) entries \<lparr>changes = [], updatePayload = [], validationErrors = []\<rparr>) = []
          \<and> d' = d \<and> \<not> updated res)
        \<or> (updatePayload (fold (manual_step e r ts) entries \<lparr>changes = [], updatePayload = [], validationErrors = []\<rparr>) \<noteq> []
          \<and> updated res
          \<and> manualChangeLog res = parseManualLog e (get_prop r ''manual_change_log'')
                @ changes (fold (manual_step e r ts) entries \<lparr>changes = [], updatePayload = [], validationErrors = []\<rparr>)
          \<and> run_UpdateCompany refuses cts d (int_of_jsnum (ToNumber e companyId))
               (Map_set ''manual_change_log''
                  (JSON_text e (JArr (parseManualLog e (get_prop r ''manual_change_log'')
                     @ changes (fold (manual_step e r ts) entries \<lparr>changes = [], updatePayload = [], validationErrors = []\<rparr>))))
                  (updatePayload (fold (manual_step e r ts) entries \<lparr>changes = [], updatePayload = [], validationErrors = []\<rparr>)))
             = Inr d'))"
  using assms
  by (auto simp add: applyManualCompanyUpdates_def Let_def split: if_splits option.splits sum.splits)

lemma apply_noop:
  assumes "Number_isInteger (ToNumber e companyId)"
    and "companies d (int_of_jsnum (ToNumber e companyId)) = Some r"
    and "\<forall>entry \<in> set entries. writes e r entry = None \<and> invalid_numeric e entry = None"
  shows "applyManualCompanyUpdates e refuses ts cts d companyId (JObj entries) =
     (Inr \<lparr>updated = False, result_changes = None,
           manualChangeLog = parseManualLog e (get_prop r ''manual_change_log''),
           message = ''No changes detected''\<rparr>, d)"
  using assms(1,2) by (simp add: applyManualCompanyUpdates_def Let_def fold_step_id [OF assms(3)])


lemma get_prop_set_columns:
  assumes "distinct (map fst payload)"
  shows "get_prop (set_columns payload r) c =
     (case map_of payload c of Some v \<Rightarrow> sql_value v | None \<Rightarrow> get_prop r c)"
  by (simp add: get_prop_def set_columns_lookup [OF assms] split: option.splits)

lemma stored_row_same:
  assumes cand: "candidate e entry = Some (c, v)"
    and mem: "entry \<in> set entries"
    and cols: "distinct (resolved_columns entries)"
    and nonan: "snd entry \<noteq> JNum NaN"
    and bind: "list_all (\<lambda>kv. bindable (snd kv)) payload'"
    and payload': "payload' = Map_set ''manual_change_log'' logtext
                     (updatePayload (fold (manual_step e r ts) entries \<lparr>changes = [], updatePayload = [], validationErrors = []\<rparr>))"
    and r1: "r1 = (set_columns payload' r)(''updated_at'' \<mapsto> stamp)"
  shows "isSame (normalized r1 c) v"
proof -
  let ?payload = "updatePayload (fold (manual_step e r ts) entries \<lparr>changes = [], updatePayload = [], validationErrors = []\<rparr>)"
  have col: "resolveManualColumn (fst entry) = Some c"
    using cand by (rule candidate_column)
  then have c_neq: "c \<noteq> ''manual_change_log''" "c \<noteq> ''updated_at''"
    using resolve_editable editable_not_log by blast+
  have dist: "distinct (map fst payload')"
    unfolding payload' by (rule Map_set_distinct, rule fold_payload_distinct) simp
  have look: "get_prop r1 c = (case map_of ?payload c of Some w \<Rightarrow> sql_value w | None \<Rightarrow> get_prop r c)"
  proof -
    have "get_prop r1 c = get_prop (set_columns payload' r) c"
      using c_neq by (simp add: r1 get_prop_def)
    also have "\<dots> = (case map_of payload' c of Some w \<Rightarrow> sql_value w | None \<Rightarrow> get_prop r c)"
      by (rule get_prop_set_columns [OF dist])
    also have "map_of payload' c = map_of ?payload c"
      using c_neq by (simp add: payload' map_of_Map_set)
    finally show ?thesis .
  qed
  show ?thesis
  proof (cases "map_of ?payload c")
    case None
    have "writes e r entry = None"
    proof (rule ccontr)
      assume "writes e r entry \<noteq> None"
      then obtain cv where w: "writes e r entry = Some cv" by auto
      with cand have "cv = (c, v)"
        by (auto simp add: writes_def split: if_splits)
      with w mem have "c \<in> fst ` set ?payload"
        by (simp add: fold_payload_written)
      with None show False
        by (simp add: map_of_eq_None_iff)
    qed
    with cand have "isSame (normalized r c) v"
      by (simp add: writes_def split: if_splits)
    moreover have "normalized r1 c = normalized r c"
      using look None by (simp add: normalized_def)
    ultimately show ?thesis by simp
  next
    case (Some w)
    from fold_payload_origin [OF Some] obtain entry' where
      e': "entry' \<in> set entries" "writes e r entry' = Some (c, w)"
      by auto
    then have cand': "candidate e entry' = Some (c, w)"
      by (simp add: writes_candidate)
    then have "resolveManualColumn (fst entry') = Some c"
      by (rule candidate_column)
    with col cols mem e'(1) have "entry' = entry"
      unfolding resolved_columns_def by (blast intro: map_filter_distinct_same)
    with cand cand' have wv: "w = v" by simp
    have "(c, w) \<in> set payload'"
      using Some c_neq by (intro map_of_SomeD) (simp add: payload' map_of_Map_set)
    with bind have "bindable w"
      by (auto simp add: list_all_iff)
    moreover have "v \<noteq> JNum NaN"
      using cand nonan by (rule candidate_not_NaN)
    ultimately have "isSame (if sql_value v = JUndefined then JNull else sql_value v) v"
      using wv by (simp add: isSame_stored)
    moreover have "normalized r1 c = (if sql_value v = JUndefined then JNull else sql_value v)"
      using look Some wv by (simp add: normalized_def)
    ultimately show ?thesis by simp
  qed
qed


text \<open>
  Claim C1, as amended. Let the keys of the update map resolve to distinct columns and let
  none of its values be \<open>NaN\<close>. If a call with the map returns normally, a second call
  with the same map on the store the first one left (at any later time) reports
  \<open>updated: false\<close> with the message of the no-change case, and leaves the store, so
  the record and its change log, as it was.
\<close>

theorem second_application_detects_no_change:
  assumes first: "applyManualCompanyUpdates e refuses ts cts d companyId (JObj entries) = (Inr res1, d1)"
    and cols: "distinct (resolved_columns entries)"
    and nonan: "\<forall>entry \<in> set entries. snd entry \<noteq> JNum NaN"
  shows "applyManualCompanyUpdates e refuses' ts' cts' d1 companyId (JObj entries) =
     (Inr \<lparr>updated = False, result_changes = None,
           manualChangeLog = stored_log e d1 (int_of_jsnum (ToNumber e companyId)),
           message = ''No changes detected''\<rparr>, d1)"
proof -
  let ?cid = "int_of_jsnum (ToNumber e companyId)"
  let ?init = "\<lparr>changes = [], updatePayload = [], validationErrors = []\<rparr>"
  from apply_success_cases [OF first] obtain r where
    int: "Number_isInteger (ToNumber e companyId)"
    and row: "companies d ?cid = Some r"
    and noerr: "validationErrors (fold (manual_step e r ts) entries ?init) = []"
    and cases: "(updatePayload (fold (manual_step e r ts) entries ?init) = [] \<and> d1 = d)
      \<or> (\<exists>logtext. run_UpdateCompany refuses cts d ?cid
            (Map_set ''manual_change_log'' logtext (updatePayload (fold (manual_step e r ts) entries ?init)))
              = Inr d1)"
    by blast
  have valid: "\<forall>entry \<in> set entries. invalid_numeric e entry = None"
    using noerr by (auto simp add: fold_errors intro: map_filter_empty)
  from cases obtain r1 where row1: "companies d1 ?cid = Some r1"
    and same: "\<forall>entry \<in> set entries. writes e r1 entry = None"
  proof
    assume a: "updatePayload (fold (manual_step e r ts) entries ?init) = [] \<and> d1 = d"
    have "\<forall>entry \<in> set entries. writes e r entry = None"
    proof (rule ballI, rule ccontr)
      fix entry assume "entry \<in> set entries" "writes e r entry \<noteq> None"
      then obtain c v where "writes e r entry = Some (c, v)" by auto
      with \<open>entry \<in> set entries\<close>
      have "c \<in> fst ` set (updatePayload (fold (manual_step e r ts) entries ?init))"
        by (rule fold_payload_written)
      with a show False by simp
    qed
    with a row that show thesis by simp
  next
    assume "\<exists>logtext. run_UpdateCompany refuses cts d ?cid
            (Map_set ''manual_change_log'' logtext (updatePayload (fold (manual_step e r ts) entries ?init)))
              = Inr d1"
    then obtain logtext where run: "run_UpdateCompany refuses cts d ?cid
            (Map_set ''manual_change_log'' logtext (updatePayload (fold (manual_step e r ts) entries ?init)))
              = Inr d1"
      by blast
    let ?payload' = "Map_set ''manual_change_log'' logtext (updatePayload (fold (manual_step e r ts) entries ?init))"
    let ?r1 = "(set_columns ?payload' r)(''updated_at'' \<mapsto> JStr cts)"
    from run_UpdateCompany_ok [OF run row] have
      bind: "list_all (\<lambda>kv. bindable (snd kv)) ?payload'"
      and d1: "d1 = d\<lparr>companies := (companies d)(?cid \<mapsto> ?r1)\<rparr>"
      by simp_all
    have "\<forall>entry \<in> set entries. writes e ?r1 entry = None"
    proof
      fix entry assume mem: "entry \<in> set entries"
      show "writes e ?r1 entry = None"
      proof (cases "candidate e entry")
        case None
        then show ?thesis by (simp add: writes_def)
      next
        case (Some cv)
        obtain c v where cv: "cv = (c, v)" by (cases cv)
        have "isSame (normalized ?r1 c) v"
          using Some cv mem cols nonan bind
          by (intro stored_row_same [where entry = entry and entries = entries and e = e
                and r = r and ts = ts and logtext = logtext and payload' = ?payload'
                and stamp = "JStr cts"]) auto
        with Some cv show ?thesis by (simp add: writes_def)
      qed
    qed
    moreover have "companies d1 ?cid = Some ?r1"
      by (simp add: d1)
    ultimately show thesis using that by blast
  qed
  have "stored_log e d1 ?cid = parseManualLog e (get_prop r1 ''manual_change_log'')"
    by (simp add: stored_log_def row1)
  moreover have "applyManualCompanyUpdates e refuses' ts' cts' d1 companyId (JObj entries) =
     (Inr \<lparr>updated = False, result_changes = None,
           manualChangeLog = parseManualLog e (get_prop r1 ''manual_change_log''),
           message = ''No changes detected''\<rparr>, d1)"
    using int row1 same valid by (intro apply_noop) auto
  ultimately show ?thesis by simp
qed

lemma apply_error_unchanged:
  "applyManualCompanyUpdates e refuses ts cts d companyId updates = (Inl err, d') \<Longrightarrow> d' = d"
  by (auto simp add: applyManualCompanyUpdates_def Let_def
      split: if_splits option.splits sum.splits jsval.splits)

lemma apply_success_object:
  "applyManualCompanyUpdates e refuses ts cts d companyId updates = (Inr res, d') \<Longrightarrow>
   \<exists>entries. updates = JObj entries"
  by (auto simp add: applyManualCompanyUpdates_def Let_def split: if_splits jsval.splits)

lemma json_norm_undefined: "json_norm v = JUndefined \<longleftrightarrow> v = JUndefined"
  by (cases v) (auto split: jsnum.splits)

lemma json_norm_idem: "json_norm (json_norm v) = json_norm v"
proof (induction v)
  case (JNum n)
  then show ?case by (cases n) simp_all
next
  case (JArr xs)
  then show ?case by (auto simp add: json_norm_undefined)
next
  case (JObj kvs)
  have keep: "filter (\<lambda>kv. snd kv \<noteq> JUndefined)
          (map (\<lambda>kv. (fst kv, json_norm (snd kv))) (filter (\<lambda>kv. snd kv \<noteq> JUndefined) kvs))
        = map (\<lambda>kv. (fst kv, json_norm (snd kv))) (filter (\<lambda>kv. snd kv \<noteq> JUndefined) kvs)"
    by (simp add: filter_map comp_def json_norm_undefined)
  have "json_norm (json_norm (snd kv)) = json_norm (snd kv)" if "kv \<in> set kvs" for kv
    using JObj that by (cases kv) auto
  then show ?case
    by (simp add: keep)
qed auto

lemma json_plain_norm: "json_plain (json_norm v)"
  by (simp add: json_plain_def json_norm_idem)

lemma json_plain_array:
  "json_plain (JArr xs) \<Longrightarrow> map (\<lambda>x. if x = JUndefined then JNull else json_norm x) xs = xs"
  by (simp add: json_plain_def)

lemma parse_written_log_norm:
  assumes "reads_back e (JArr l)"
  shows "JArr (parseManualLog e (sql_value (JSON_text e (JArr l)))) = json_norm (JArr l)"
proof -
  from assms obtain t where t: "JSON_stringify e (JArr l) = Some t"
      "JSON_parse_text e t = Some (json_norm (JArr l))"
    by (auto simp add: reads_back_def split: option.splits)
  then have "t \<noteq> []" by auto
  with t show ?thesis
    by (simp add: JSON_text_def sql_value_def parseManualLog_def falsy_def JSON_parse_def)
qed

text \<open>
  Claim C7, as amended. Let the stored log of a company hold only entries that JSON
  serialisation preserves (as every log does that this code wrote, and as a missing or
  corrupt log does, which reads as empty). Then whatever the arguments of a call, the log
  of that company after the call is the log before it with zero or more entries appended,
  no entry removed or altered, and it again holds only such entries. The parser of the
  environment is taken to read, as the built-in does, the log the call serialised.
\<close>

theorem json_log_only_grows:
  assumes call: "applyManualCompanyUpdates e refuses ts cts d companyId updates = (res, d')"
    and parse: "\<And>r. res = Inr r \<Longrightarrow> updated r \<Longrightarrow> reads_back e (JArr (manualChangeLog r))"
    and plain: "json_plain (JArr (stored_log e d cid))"
  shows "(\<exists>new. stored_log e d' cid = stored_log e d cid @ new)
         \<and> json_plain (JArr (stored_log e d' cid))"
proof (cases res)
  case (Inl err)
  with call have "d' = d" by (simp add: apply_error_unchanged)
  with plain show ?thesis by simp
next
  case (Inr r)
  with call obtain entries where obj: "updates = JObj entries"
    using apply_success_object by blast
  let ?cid = "int_of_jsnum (ToNumber e companyId)"
  let ?init = "\<lparr>changes = [], updatePayload = [], validationErrors = []\<rparr>"
  from call Inr obj have
    "applyManualCompanyUpdates e refuses ts cts d companyId (JObj entries) = (Inr r, d')"
    by simp
  from apply_success_cases [OF this] obtain row where
    row: "companies d ?cid = Some row"
    and cases: "d' = d
      \<or> (updated r
          \<and> manualChangeLog r = parseManualLog e (get_prop row ''manual_change_log'')
                @ changes (fold (manual_step e row ts) entries ?init)
          \<and> run_UpdateCompany refuses cts d ?cid
               (Map_set ''manual_change_log''
                  (JSON_text e (JArr (parseManualLog e (get_prop row ''manual_change_log'')
                     @ changes (fold (manual_step e row ts) entries ?init))))
                  (updatePayload (fold (manual_step e row ts) entries ?init)))
             = Inr d')"
    by blast
  from cases show ?thesis
  proof
    assume "d' = d"
    with plain show ?thesis by simp
  next
    assume a: "updated r
          \<and> manualChangeLog r = parseManualLog e (get_prop row ''manual_change_log'')
                @ changes (fold (manual_step e row ts) entries ?init)
          \<and> run_UpdateCompany refuses cts d ?cid
               (Map_set ''manual_change_log''
                  (JSON_text e (JArr (parseManualLog e (get_prop row ''manual_change_log'')
                     @ changes (fold (manual_step e row ts) entries ?init))))
                  (updatePayload (fold (manual_step e row ts) entries ?init)))
             = Inr d'"
    let ?base = "parseManualLog e (get_prop row ''manual_change_log'')"
    let ?new = "changes (fold (manual_step e row ts) entries ?init)"
    let ?log = "?base @ ?new"
    let ?payload' = "Map_set ''manual_change_log'' (JSON_text e (JArr ?log))
                       (updatePayload (fold (manual_step e row ts) entries ?init))"
    let ?r1 = "(set_columns ?payload' row)(''updated_at'' \<mapsto> JStr cts)"
    let ?norm = "\<lambda>x. if x = JUndefined then JNull else json_norm x"
    from a have run: "run_UpdateCompany refuses cts d ?cid ?payload' = Inr d'" by simp
    from run_UpdateCompany_ok [OF run row] have
      d': "d' = d\<lparr>companies := (companies d)(?cid \<mapsto> ?r1)\<rparr>"
      by simp
    show ?thesis
    proof (cases "cid = ?cid")
      case False
      with plain show ?thesis by (simp add: d' stored_log_def)
    next
      case True
      have base: "stored_log e d cid = ?base"
        using True row by (simp add: stored_log_def)
      have dist: "distinct (map fst ?payload')"
        by (rule Map_set_distinct, rule fold_payload_distinct) simp
      have "get_prop ?r1 ''manual_change_log'' = get_prop (set_columns ?payload' row) ''manual_change_log''"
        by (simp add: get_prop_def)
      also have "\<dots> = sql_value (JSON_text e (JArr ?log))"
        by (simp add: get_prop_set_columns [OF dist] map_of_Map_set)
      finally have "JArr (parseManualLog e (get_prop ?r1 ''manual_change_log'')) = json_norm (JArr ?log)"
        using parse [OF Inr] a by (simp add: parse_written_log_norm)
      then have after: "stored_log e d' cid = map ?norm ?log"
        using True by (simp add: d' stored_log_def)
      have "map ?norm ?base = ?base"
        using plain base by (simp add: json_plain_array)
      then have "stored_log e d' cid = stored_log e d cid @ map ?norm ?new"
        using after base by simp
      moreover have "json_plain (JArr (stored_log e d' cid))"
      proof -
        have "JArr (stored_log e d' cid) = json_norm (JArr ?log)"
          using after by simp
        then show ?thesis by (simp only: json_plain_norm)
      qed
      ultimately show ?thesis by blast
    qed
  qed
qed

lemma parseManualLog_corrupt:
  assumes "rawLog = JNull \<or> JSON_parse e rawLog = None
     \<or> (\<exists>v. JSON_parse e rawLog = Some v \<and> \<not> Array_isArray v)"
  shows "parseManualLog e rawLog = []"
  using assms
proof (elim disjE exE conjE)
  assume "rawLog = JNull"
  then show ?thesis by (simp add: parseManualLog_def falsy_def)
next
  assume "JSON_parse e rawLog = None"
  then show ?thesis by (simp add: parseManualLog_def)
next
  fix v assume "JSON_parse e rawLog = Some v" "\<not> Array_isArray v"
  then show ?thesis by (cases v) (simp_all add: parseManualLog_def Array_isArray_def)
qed



lemma apply_returned_log:
  "applyManualCompanyUpdates e refuses ts cts d companyId updates = (Inr res, d') \<Longrightarrow>
   companies d (int_of_jsnum (ToNumber e companyId)) = Some r \<Longrightarrow>
   parseManualLog e (get_prop r ''manual_change_log'') = [] \<Longrightarrow>
   manualChangeLog res = (case result_changes res of None \<Rightarrow> [] | Some cs \<Rightarrow> cs)"
  by (auto simp add: applyManualCompanyUpdates_def Let_def
      split: if_splits option.splits sum.splits jsval.splits)

lemma run_UpdateCompany_error:
  "run_UpdateCompany refuses cts d cid payload = Inl err \<Longrightarrow> err = StoreError"
  by (auto simp add: run_UpdateCompany_def split: if_splits option.splits)

lemma apply_with_empty_log:
  assumes "parseManualLog e (get_prop r ''manual_change_log'') = []"
    and "Number_isInteger (ToNumber e companyId)"
    and "companies d (int_of_jsnum (ToNumber e companyId)) = Some r"
  shows "applyManualCompanyUpdates e refuses ts cts d companyId (JObj entries) =
      (let st = fold (manual_step e r ts) entries
                  \<lparr>changes = [], updatePayload = [], validationErrors = []\<rparr>
       in if validationErrors st \<noteq> []
          then (Inl (Error (join ''; '' (validationErrors st)) (Some 400)), d)
          else if updatePayload st = []
          then (Inr \<lparr>updated = False, result_changes = None, manualChangeLog = [],
                     message = ''No changes detected''\<rparr>, d)
          else case run_UpdateCompany refuses cts d (int_of_jsnum (ToNumber e companyId))
                      (Map_set ''manual_change_log'' (JSON_text e (JArr (changes st)))
                         (updatePayload st)) of
                 Inl err \<Rightarrow> (Inl err, d)
               | Inr d' \<Rightarrow>
                   (Inr \<lparr>updated = True, result_changes = Some (changes st),
                         manualChangeLog = changes st,
                         message = nat_digits (length (changes st)) @ '' field(s) updated''\<rparr>, d'))"
  using assms by (simp add: applyManualCompanyUpdates_def Let_def split: sum.splits)


lemma map_filter_some:
  "List.map_filter f xs \<noteq> [] \<Longrightarrow> \<exists>x \<in> set xs. f x \<noteq> None"
  by (induction xs) (auto simp add: List.map_filter_simps split: option.splits)

lemma apply_fails_only_for_input_or_store:
  assumes empty: "parseManualLog e (get_prop r ''manual_change_log'') = []"
    and int: "Number_isInteger (ToNumber e companyId)"
    and row: "companies d (int_of_jsnum (ToNumber e companyId)) = Some r"
    and fails: "fst (applyManualCompanyUpdates e refuses ts cts d companyId (JObj entries)) = Inl err"
  shows "(\<exists>entry \<in> set entries. invalid_numeric e entry \<noteq> None) \<or> err = StoreError"
proof (cases "validationErrors (fold (manual_step e r ts) entries
                \<lparr>changes = [], updatePayload = [], validationErrors = []\<rparr>) = []")
  case False
  then have "List.map_filter (invalid_numeric e) entries \<noteq> []"
    by (simp add: fold_errors)
  then show ?thesis
    using map_filter_some by blast
next
  case True
  with fails have "err = StoreError"
    unfolding apply_with_empty_log [OF empty int row]
    by (auto simp add: Let_def split: if_splits sum.splits dest: run_UpdateCompany_error)
  then show ?thesis ..
qed

text \<open>
  Claim C10. A stored log that is \<open>null\<close>, that \<open>JSON.parse\<close> rejects, or that parses
  to something other than an array reads as the empty list, and the history entry of a
  case whose company has such a log carries an empty change log. A manual update of a
  company with such a log proceeds as with an empty log: it throws the validation error
  when an entry is invalid, returns \<open>updated: false\<close> with an empty log when no entry
  changes a column, and otherwise runs the statement, writing the new changes as the whole
  log, and returns them. It fails only for an invalid entry or when the store fails the
  statement, never because of the log.
\<close>

theorem corrupt_log_reads_empty:
  assumes "rawLog = JNull \<or> JSON_parse e rawLog = None
             \<or> (\<exists>v. JSON_parse e rawLog = Some v \<and> \<not> Array_isArray v)"
    and "get_prop r ''manual_change_log'' = rawLog"
  shows "parseManualLog e rawLog = []
     \<and> property (mapCase e r) ''manualChangeLog'' = JArr []
     \<and> (companies d (int_of_jsnum (ToNumber e companyId)) = Some r
          \<and> applyManualCompanyUpdates e refuses ts cts d companyId updates = (Inr res, d')
        \<longrightarrow> manualChangeLog res = (case result_changes res of None \<Rightarrow> [] | Some cs \<Rightarrow> cs))
     \<and> (Number_isInteger (ToNumber e companyId)
          \<and> companies d (int_of_jsnum (ToNumber e companyId)) = Some r
        \<longrightarrow> applyManualCompanyUpdates e refuses ts cts d companyId (JObj entries) =
            (let st = fold (manual_step e r ts) entries
                        \<lparr>changes = [], updatePayload = [], validationErrors = []\<rparr>
             in if validationErrors st \<noteq> []
                then (Inl (Error (join ''; '' (validationErrors st)) (Some 400)), d)
                else if updatePayload st = []
                then (Inr \<lparr>updated = False, result_changes = None, manualChangeLog = [],
                           message = ''No changes detected''\<rparr>, d)
                else case run_UpdateCompany refuses cts d (int_of_jsnum (ToNumber e companyId))
                            (Map_set ''manual_change_log'' (JSON_text e (JArr (changes st)))
                               (updatePayload st)) of
                       Inl err \<Rightarrow> (Inl err, d)
                     | Inr d1 \<Rightarrow>
                         (Inr \<lparr>updated = True, result_changes = Some (changes st),
                               manualChangeLog = changes st,
                               message = nat_digits (length (changes st)) @ '' field(s) updated''\<rparr>,
                          d1)))
     \<and> (Number_isInteger (ToNumber e companyId)
          \<and> companies d (int_of_jsnum (ToNumber e companyId)) = Some r
          \<and> (\<forall>entry \<in> set entries. writes e r entry = None \<and> invalid_numeric e entry = None)
        \<longrightarrow> applyManualCompanyUpdates e refuses ts cts d companyId (JObj entries) =
            (Inr \<lparr>updated = False, result_changes = None, manualChangeLog = [],
                  message = ''No changes detected''\<rparr>, d))
     \<and> (Number_isInteger (ToNumber e companyId)
          \<and> companies d (int_of_jsnum (ToNumber e companyId)) = Some r
          \<and> fst (applyManualCompanyUpdates e refuses ts cts d companyId (JObj entries)) = Inl err
        \<longrightarrow> (\<exists>entry \<in> set entries. invalid_numeric e entry \<noteq> None) \<or> err = StoreError)"
proof (intro conjI impI)
  show empty: "parseManualLog e rawLog = []"
    using assms(1) by (rule parseManualLog_corrupt)
  then show "property (mapCase e r) ''manualChangeLog'' = JArr []"
    using assms(2) by (simp add: mapCase_def property_def)
  have empty': "parseManualLog e (get_prop r ''manual_change_log'') = []"
    using empty assms(2) by simp
  {
    assume a: "companies d (int_of_jsnum (ToNumber e companyId)) = Some r
          \<and> applyManualCompanyUpdates e refuses ts cts d companyId updates = (Inr res, d')"
    with empty' show "manualChangeLog res = (case result_changes res of None \<Rightarrow> [] | Some cs \<Rightarrow> cs)"
      using apply_returned_log by blast
  }
  {
    assume a: "Number_isInteger (ToNumber e companyId)
          \<and> companies d (int_of_jsnum (ToNumber e companyId)) = Some r"
    then show "applyManualCompanyUpdates e refuses ts cts d companyId (JObj entries) =
            (let st = fold (manual_step e r ts) entries
                        \<lparr>changes = [], updatePayload = [], validationErrors = []\<rparr>
             in if validationErrors st \<noteq> []
                then (Inl (Error (join ''; '' (validationErrors st)) (Some 400)), d)
                else if updatePayload st = []
                then (Inr \<lparr>updated = False, result_changes = None, manualChangeLog = [],
                           message = ''No changes detected''\<rparr>, d)
                else case run_UpdateCompany refuses cts d (int_of_jsnum (ToNumber e companyId))
                            (Map_set ''manual_change_log'' (JSON_text e (JArr (changes st)))
                               (updatePayload st)) of
                       Inl err \<Rightarrow> (Inl err, d)
                     | Inr d1 \<Rightarrow>
                         (Inr \<lparr>updated = True, result_changes = Some (changes st),
                               manualChangeLog = changes st,
                               message = nat_digits (length (changes st)) @ '' field(s) updated''\<rparr>,
                          d1))"
      using empty' by (intro apply_with_empty_log) simp_all
  }
  {
    assume a: "Number_isInteger (ToNumber e companyId)
          \<and> companies d (int_of_jsnum (ToNumber e companyId)) = Some r
          \<and> (\<forall>entry \<in> set entries. writes e r entry = None \<and> invalid_numeric e entry = None)"
    then have "applyManualCompanyUpdates e refuses ts cts d companyId (JObj entries) =
            (Inr \<lparr>updated = False, result_changes = None,
                  manualChangeLog = parseManualLog e (get_prop r ''manual_change_log''),
                  message = ''No changes detected''\<rparr>, d)"
      by (intro apply_noop) simp_all
    with empty' show "applyManualCompanyUpdates e refuses ts cts d companyId (JObj entries) =
            (Inr \<lparr>updated = False, result_changes = None, manualChangeLog = [],
                  message = ''No changes detected''\<rparr>, d)"
      by simp
  }
  {
    assume a: "Number_isInteger (ToNumber e companyId)
          \<and> companies d (int_of_jsnum (ToNumber e companyId)) = Some r
          \<and> fst (applyManualCompanyUpdates e refuses ts cts d companyId (JObj entries)) = Inl err"
    with empty' show "(\<exists>entry \<in> set entries. invalid_numeric e entry \<noteq> None) \<or> err = StoreError"
      using apply_fails_only_for_input_or_store [of e r companyId d refuses ts cts entries err]
      by simp
  }
qed

section \<open>Properties of the history feed\<close>

















section \<open>The properties on the concrete store\<close>

text \<open>
  Claim C1 as stated fails: with the two keys \<open>funding_need_type\<close> and
  \<open>funding_need_type_guess\<close>, which resolve to one column, and two different values,
  the first call stores the second value and the second call, comparing both entries
  with it, finds the first one changed, reports \<open>updated: true\<close> and stores that.
\<close>

theorem alias_keys_update_again:
  "map_sum id updated (fst (first_call alias_updates)) = Inr True
   \<and> stored_value (snd (first_call alias_updates)) 1 ''funding_need_type'' = JStr ''loan''
   \<and> map_sum id updated (fst (second_call alias_updates)) = Inr True
   \<and> stored_value (snd (second_call alias_updates)) 1 ''funding_need_type'' = JStr ''grant''"
  by code_simp

lemma first_call_example:
  "fst (first_call example_updates) =
     Inr \<lparr>updated = True,
          result_changes = Some [change_entry ''employee_count'' JNull (JNum (Fin 12)) ''t1''],
          manualChangeLog = [change_entry ''employee_count'' JNull (JNum (Fin 12)) ''t1''],
          message = ''1 field(s) updated''\<rparr>"
  by code_simp

lemma example_columns:
  "distinct (resolved_columns [(''employee_count'', JStr '' 12''), (''stage'', JStr ''seed'')])"
  by code_simp

lemma example_id: "int_of_jsnum (ToNumber example_env (JNum (Fin 1))) = 1"
  by (simp add: int_of_jsnum_def ToNumber_def)

theorem second_application_witness:
  "map_sum id updated (fst (first_call example_updates)) = Inr True
   \<and> distinct (resolved_columns [(''employee_count'', JStr '' 12''), (''stage'', JStr ''seed'')])
   \<and> second_call example_updates =
       (Inr \<lparr>updated = False, result_changes = None,
             manualChangeLog = stored_log example_env (snd (first_call example_updates)) 1,
             message = ''No changes detected''\<rparr>,
        snd (first_call example_updates))"
proof -
  let ?entries = "[(''employee_count'', JStr '' 12''), (''stage'', JStr ''seed'')]"
  have first: "applyManualCompanyUpdates example_env never ''t1'' ''c1'' example_db (JNum (Fin 1))
                 (JObj ?entries)
               = (Inr \<lparr>updated = True,
                    result_changes = Some [change_entry ''employee_count'' JNull (JNum (Fin 12)) ''t1''],
                    manualChangeLog = [change_entry ''employee_count'' JNull (JNum (Fin 12)) ''t1''],
                    message = ''1 field(s) updated''\<rparr>, snd (first_call example_updates))"
    using first_call_example
    by (simp add: first_call_def example_updates_def prod_eq_iff)
  have nonan: "\<forall>entry \<in> set ?entries. snd entry \<noteq> JNum NaN"
    by simp
  from second_application_detects_no_change [OF first example_columns nonan, of never "''t2''" "''c2''"]
  show ?thesis
    using first_call_example example_columns
    by (simp add: second_call_def example_updates_def example_id)
qed


theorem invalid_numeric_witness:
  "invalid_numeric example_env (''employee_count'', JStr ''many'') = Some ''employee_count''
   \<and> first_call invalid_updates =
       (Inl (Error ''Invalid numeric value for employee_count'' (Some 400)), example_db)"
proof -
  let ?entries = "[(''employee_count'', JStr ''many''), (''stage'', JStr ''growth'')]"
  have int: "Number_isInteger (ToNumber example_env (JNum (Fin 1)))"
    by (simp add: Number_isInteger_def ToNumber_def is_integer_def)
  have row: "companies example_db (int_of_jsnum (ToNumber example_env (JNum (Fin 1)))) = Some example_row"
    by (simp add: example_id example_db_def)
  have mem: "(''employee_count'', JStr ''many'') \<in> set ?entries"
    by simp
  have bad: "invalid_numeric example_env (''employee_count'', JStr ''many'') = Some ''employee_count''"
    by code_simp
  have msgs: "join ''; '' (map invalid_message (List.map_filter (invalid_numeric example_env) ?entries))
                = ''Invalid numeric value for employee_count''"
    by code_simp
  from invalid_numeric_fails_whole_request [OF int row mem bad, of never "''t1''" "''c1''", unfolded msgs]
  show ?thesis
    using bad by (simp add: first_call_def invalid_updates_def)
qed

text \<open>
  Claim C7 as stated fails for a stored log that holds an entry JSON cannot write back:
  the text \<open>[1e999]\<close> parses to the array holding \<open>Infinity\<close>, which
  \<open>JSON.stringify\<close> writes as \<open>null\<close>, so after an update the first entry of the
  log is another one.
\<close>

theorem stored_overflow_entry_altered:
  "stored_log overflow_env overflow_db 1 = [JNum PosInf]
   \<and> map_sum id updated (fst overflow_call) = Inr True
   \<and> reads_back overflow_env
        (JArr [JNum PosInf, change_entry ''employee_count'' JNull (JNum (Fin 12)) ''t1''])
   \<and> stored_log overflow_env (snd overflow_call) 1
       = [JNull, change_entry ''employee_count'' JNull (JNum (Fin 12)) ''t1'']
   \<and> take 1 (stored_log overflow_env (snd overflow_call) 1) \<noteq> stored_log overflow_env overflow_db 1"
  by code_simp

lemma later_call_result:
  "fst later_call =
     Inr \<lparr>updated = True,
          result_changes = Some [change_entry ''stage'' (JStr ''seed'') (JStr ''growth'') ''t2''],
          manualChangeLog = [change_entry ''employee_count'' JNull (JNum (Fin 12)) ''t1'',
                             change_entry ''stage'' (JStr ''seed'') (JStr ''growth'') ''t2''],
          message = ''1 field(s) updated''\<rparr>"
  by code_simp

theorem json_log_grows_witness:
  "stored_log later_env logged_db 1 = [change_entry ''employee_count'' JNull (JNum (Fin 12)) ''t1'']
   \<and> json_plain (JArr (stored_log later_env logged_db 1))
   \<and> reads_back later_env grown_log
   \<and> (\<exists>new. stored_log later_env (snd later_call) 1 = stored_log later_env logged_db 1 @ new)
   \<and> stored_log later_env (snd later_call) 1
       = [change_entry ''employee_count'' JNull (JNum (Fin 12)) ''t1'',
          change_entry ''stage'' (JStr ''seed'') (JStr ''growth'') ''t2'']"
proof -
  have before: "stored_log later_env logged_db 1 = [change_entry ''employee_count'' JNull (JNum (Fin 12)) ''t1'']"
    by code_simp
  have plain: "json_plain (JArr (stored_log later_env logged_db 1))"
    by code_simp
  have rb: "reads_back later_env grown_log"
    by code_simp
  have after: "stored_log later_env (snd later_call) 1
       = [change_entry ''employee_count'' JNull (JNum (Fin 12)) ''t1'',
          change_entry ''stage'' (JStr ''seed'') (JStr ''growth'') ''t2'']"
    by code_simp
  have call: "applyManualCompanyUpdates later_env never ''t2'' ''c2'' logged_db (JNum (Fin 1))
                later_updates = (fst later_call, snd later_call)"
    by (simp add: later_call_def)
  have "reads_back later_env (JArr (manualChangeLog r))" if "fst later_call = Inr r" for r
    using that rb by (auto simp add: later_call_result grown_log_def)
  from json_log_only_grows [OF call this plain]
  show ?thesis
    using before plain rb after by simp
qed

theorem corrupt_log_witness:
  "JSON_parse example_env (JStr ''not json'') = None
   \<and> parseManualLog example_env (JStr ''not json'') = []
   \<and> property (mapCase example_env example_case_old) ''manualChangeLog'' = JArr []
   \<and> applyManualCompanyUpdates example_env never ''t1'' ''c1'' corrupt_db (JNum (Fin 1))
         (JObj [(''stage'', JStr ''seed'')])
       = (Inr \<lparr>updated = False, result_changes = None, manualChangeLog = [],
               message = ''No changes detected''\<rparr>, corrupt_db)
   \<and> fst (applyManualCompanyUpdates example_env never ''t1'' ''c1'' corrupt_db (JNum (Fin 1))
            example_updates)
       = Inr \<lparr>updated = True,
              result_changes = Some [change_entry ''employee_count'' JNull (JNum (Fin 12)) ''t1''],
              manualChangeLog = [change_entry ''employee_count'' JNull (JNum (Fin 12)) ''t1''],
              message = ''1 field(s) updated''\<rparr>"
proof -
  have none: "JSON_parse example_env (JStr ''not json'') = None"
    by code_simp
  have log: "get_prop example_case_old ''manual_change_log'' = JStr ''not json''"
    by (simp add: get_prop_def example_case_old_def)
  have log': "get_prop corrupt_row ''manual_change_log'' = JStr ''not json''"
    by (simp add: get_prop_def corrupt_row_def)
  have int: "Number_isInteger (ToNumber example_env (JNum (Fin 1)))"
    by (simp add: Number_isInteger_def ToNumber_def is_integer_def)
  have row: "companies corrupt_db (int_of_jsnum (ToNumber example_env (JNum (Fin 1)))) = Some corrupt_row"
    by (simp add: example_id corrupt_db_def)
  have same: "\<forall>entry \<in> set [(''stage'', JStr ''seed'')].
                writes example_env corrupt_row entry = None
                \<and> invalid_numeric example_env entry = None"
    by code_simp
  have upd: "fst (applyManualCompanyUpdates example_env never ''t1'' ''c1'' corrupt_db (JNum (Fin 1))
            example_updates)
       = Inr \<lparr>updated = True,
              result_changes = Some [change_entry ''employee_count'' JNull (JNum (Fin 12)) ''t1''],
              manualChangeLog = [change_entry ''employee_count'' JNull (JNum (Fin 12)) ''t1''],
              message = ''1 field(s) updated''\<rparr>"
    by code_simp
  from corrupt_log_reads_empty [of "JStr ''not json''" example_env example_case_old, OF _ log]
  have a: "parseManualLog example_env (JStr ''not json'') = []
           \<and> property (mapCase example_env example_case_old) ''manualChangeLog'' = JArr []"
    using none by simp
  have corrupt: "JStr ''not json'' = JNull \<or> JSON_parse example_env (JStr ''not json'') = None
             \<or> (\<exists>v. JSON_parse example_env (JStr ''not json'') = Some v \<and> \<not> Array_isArray v)"
    using none by simp
  have "applyManualCompanyUpdates example_env never ''t1'' ''c1'' corrupt_db (JNum (Fin 1))
         (JObj [(''stage'', JStr ''seed'')])
       = (Inr \<lparr>updated = False, result_changes = None, manualChangeLog = [],
               message = ''No changes detected''\<rparr>, corrupt_db)"
    by (rule corrupt_log_reads_empty [OF corrupt log', THEN conjunct2, THEN conjunct2,
          THEN conjunct2, THEN conjunct2, THEN conjunct1, THEN mp])
       (use int row same in simp)
  with a none upd show ?thesis by simp
qed


text \<open>
  Claim C3 fails on the code: the statement that replaces the payload runs before the
  transaction that inserts the change rows and outside it. When the store fails an
  insertion, the call throws, the transaction rolls the insertions back, and the store
  keeps the new payload with no change row for it.
\<close>

theorem payload_replaced_without_change_rows:
  "fst (applyManualInvestorReportUpdates example_env example_queries refuse_inserts ''c1''
          example_db (JNum (Fin 1)) new_recommendation) = Inl StoreError
   \<and> stored_recommendation example_db 1 = JSON_text example_env example_recommendation
   \<and> stored_recommendation
         (snd (applyManualInvestorReportUpdates example_env example_queries refuse_inserts ''c1''
                 example_db (JNum (Fin 1)) new_recommendation)) 1
       = JSON_text example_env new_recommendation
   \<and> JSON_text example_env new_recommendation \<noteq> JSON_text example_env example_recommendation
   \<and> investor_report_changes
         (snd (applyManualInvestorReportUpdates example_env example_queries refuse_inserts ''c1''
                 example_db (JNum (Fin 1)) new_recommendation)) = []"
  by code_simp

text \<open>
  Claim C9 fails on the code for arrays: the guard tests \<open>typeof recommendation\<close>, which
  is \<open>object\<close> for an array too, so an empty array is accepted, diffed against the
  stored payload and written in its place, with change rows.
\<close>

theorem array_recommendation_accepted:
  "map_sum id report_updated
     (fst (applyManualInvestorReportUpdates example_env example_queries never ''c1''
             example_db (JNum (Fin 1)) (JArr []))) = Inr True
   \<and> stored_recommendation
         (snd (applyManualInvestorReportUpdates example_env example_queries never ''c1''
                 example_db (JNum (Fin 1)) (JArr []))) 1 = JStr ''[]''
   \<and> length (investor_report_changes
         (snd (applyManualInvestorReportUpdates example_env example_queries never ''c1''
                 example_db (JNum (Fin 1)) (JArr [])))) = 3
   \<and> fst (applyManualInvestorReportUpdates example_env example_queries never ''c1''
             example_db (JNum (Fin 1)) JNull)
       = Inl (Error ''recommendation payload must be an object'' None)
   \<and> fst (applyManualInvestorReportUpdates example_env example_queries never ''c1''
             example_db (JNum (Fin 1)) (JStr ''text''))
       = Inl (Error ''recommendation payload must be an object'' None)"
  by code_simp

end
